theory Spec2Isabelle
  imports Main "HOL-Library.AList"
begin

section \<open>Values\<close>

text \<open>
  The tools of \<^verbatim>\<open>new.py\<close> receive JSON arguments and get JSON back from the Notion
  client. A Python value is modelled by \<open>json\<close>; a \<^verbatim>\<open>dict\<close> is an association
  list in insertion order, with string keys. Floating point numbers are left out: no
  operation computes with a number.
\<close>

datatype json =
    JNull
  | JBool bool
  | JInt int
  | JStr string
  | JList "json list"
  | JDict "(string \<times> json) list"

type_synonym dict = "(string \<times> json) list"

text \<open>Exceptions that the code of the tools itself can raise.\<close>

datatype exn =
    KeyError string
  | AttributeError string
  | TypeError

text \<open>Python truth value testing (\<^verbatim>\<open>if x:\<close>, \<^verbatim>\<open>not x\<close>).\<close>

fun truthy :: "json \<Rightarrow> bool" where
  "truthy JNull = False"
| "truthy (JBool b) = b"
| "truthy (JInt i) = (i \<noteq> 0)"
| "truthy (JStr s) = (s \<noteq> [])"
| "truthy (JList xs) = (xs \<noteq> [])"
| "truthy (JDict d) = (d \<noteq> [])"

fun isinstance_str :: "json \<Rightarrow> bool" where
  "isinstance_str (JStr s) = True"
| "isinstance_str _ = False"

fun isinstance_dict :: "json \<Rightarrow> bool" where
  "isinstance_dict (JDict d) = True"
| "isinstance_dict _ = False"

fun isinstance_list :: "json \<Rightarrow> bool" where
  "isinstance_list (JList xs) = True"
| "isinstance_list _ = False"

text \<open>\<^verbatim>\<open>d.get(k, default)\<close> on a \<^verbatim>\<open>dict\<close>, and \<^verbatim>\<open>k in d\<close>.\<close>

definition dict_get :: "dict \<Rightarrow> string \<Rightarrow> json \<Rightarrow> json" where
  "dict_get d k fallback = (case map_of d k of None \<Rightarrow> fallback | Some v \<Rightarrow> v)"

definition dict_in :: "string \<Rightarrow> dict \<Rightarrow> bool" where
  "dict_in k d = (map_of d k \<noteq> None)"

text \<open>
  \<^verbatim>\<open>x.get(k, default)\<close> on any value: only a \<^verbatim>\<open>dict\<close> has the method, every
  other value raises \<^verbatim>\<open>AttributeError\<close>.
\<close>

fun py_get :: "json \<Rightarrow> string \<Rightarrow> json \<Rightarrow> exn + json" where
  "py_get (JDict d) k fallback = Inr (dict_get d k fallback)"
| "py_get _ k fallback = Inl (AttributeError ''get'')"

text \<open>
  Iterating a value (\<^verbatim>\<open>for x in v\<close>, a comprehension, \<^verbatim>\<open>list.extend(v)\<close>): a list
  gives its elements, a \<^verbatim>\<open>dict\<close> its keys, a string its characters; the other values
  raise \<^verbatim>\<open>TypeError\<close>.
\<close>

fun py_iter :: "json \<Rightarrow> exn + json list" where
  "py_iter (JList xs) = Inr xs"
| "py_iter (JDict d) = Inr (map (\<lambda>kv. JStr (fst kv)) d)"
| "py_iter (JStr s) = Inr (map (\<lambda>c. JStr [c]) s)"
| "py_iter _ = Inl TypeError"

text \<open>Optional arguments as values: \<^verbatim>\<open>None\<close> is \<open>JNull\<close>.\<close>

fun opt_str :: "string option \<Rightarrow> json" where
  "opt_str None = JNull"
| "opt_str (Some s) = JStr s"

fun opt_int :: "int option \<Rightarrow> json" where
  "opt_int None = JNull"
| "opt_int (Some n) = JInt n"

fun opt_bool :: "bool option \<Rightarrow> json" where
  "opt_bool None = JNull"
| "opt_bool (Some b) = JBool b"

fun opt_dict :: "dict option \<Rightarrow> json" where
  "opt_dict None = JNull"
| "opt_dict (Some d) = JDict d"

fun opt_dicts :: "dict list option \<Rightarrow> json" where
  "opt_dicts None = JNull"
| "opt_dicts (Some ds) = JList (map JDict ds)"

text \<open>A parameter with a default: \<open>None\<close> is the argument left out of the call.\<close>

fun dflt :: "'a \<Rightarrow> 'a option \<Rightarrow> 'a" where
  "dflt d None = d"
| "dflt d (Some v) = v"

section \<open>The identifier validator\<close>

text \<open>
  \<^verbatim>\<open>_UUID_RE = re.compile(r"^[0-9a-fA-F-]{32,36}$")\<close>, used with \<^verbatim>\<open>match\<close>:
  the character class is repeated 32 to 36 times from the start of the string, and
  \<^verbatim>\<open>$\<close> (without \<^verbatim>\<open>re.MULTILINE\<close>) matches at the end of the string and also just
  before a newline that ends the string.
\<close>

definition hex_or_dash :: "char \<Rightarrow> bool" where
  "hex_or_dash c = (c \<in> set ''0123456789abcdefABCDEF-'')"

definition dollar :: "string \<Rightarrow> bool" where
  "dollar rest = (rest = [] \<or> rest = [CHR 0x0A])"

definition uuid_re_match :: "string \<Rightarrow> bool" where
  "uuid_re_match s =
     list_ex (\<lambda>n. n \<le> length s \<and> list_all hex_or_dash (take n s) \<and> dollar (drop n s))
       [32 ..< 37]"

definition validate_notion_id :: "json \<Rightarrow> bool" where
  "validate_notion_id notion_id =
     (if \<not> truthy notion_id \<or> \<not> isinstance_str notion_id then False
      else (case notion_id of JStr s \<Rightarrow> uuid_re_match s | _ \<Rightarrow> False))"

section \<open>Result envelopes and the collaborator\<close>

text \<open>
  Every tool returns the \<^verbatim>\<open>dict\<close> \<^verbatim>\<open>{"successful": ..., "data": ..., "error": ...}\<close>.
  \<open>error\<close> is \<open>None\<close> for Python's \<^verbatim>\<open>None\<close> and \<open>Some s\<close> for a string.
\<close>

record envelope =
  successful :: bool
  data :: json
  error :: "string option"

definition failure :: "string \<Rightarrow> envelope" where
  "failure msg = \<lparr>successful = False, data = JDict [], error = Some msg\<rparr>"

text \<open>
  The Notion client (\<^verbatim>\<open>notion = Client(auth=NOTION_TOKEN)\<close>) is outside the repository.
  A call names an endpoint and passes keyword arguments; the client answers with a value
  or raises an \<^verbatim>\<open>Exception\<close>, of which the tools only read \<^verbatim>\<open>str(e)\<close>. Its answer
  may depend on the calls made before, so a collaborator is a function of the calls
  issued so far and the present call. The list of calls issued is the only state the
  tools change.
\<close>

datatype endpoint =
    users_me
  | users_list
  | users_retrieve
  | pages_create
  | pages_update
  | pages_retrieve
  | pages_properties_retrieve
  | search
  | databases_create
  | databases_query
  | databases_retrieve
  | databases_update
  | blocks_children_append
  | blocks_children_list
  | blocks_update
  | blocks_retrieve
  | comments_create
  | comments_list

type_synonym request = "endpoint \<times> dict"

type_synonym collaborator = "request list \<Rightarrow> request \<Rightarrow> string + json"

text \<open>
  The outcome of a tool: the envelope it returns, or the exception that escapes from it,
  and the calls issued.
\<close>

type_synonym outcome = "(exn + envelope) \<times> request list"

definition safe_execute ::
  "collaborator \<Rightarrow> endpoint \<Rightarrow> dict \<Rightarrow> request list \<Rightarrow> envelope \<times> request list" where
  "safe_execute notion func kwargs calls =
     (case notion calls (func, kwargs) of
        Inr d \<Rightarrow> (\<lparr>successful = True, data = d, error = None\<rparr>, calls @ [(func, kwargs)])
      | Inl e \<Rightarrow> (\<lparr>successful = False, data = JDict [], error = Some e\<rparr>, calls @ [(func, kwargs)]))"

text \<open>\<^verbatim>\<open>return safe_execute(...)\<close>: the envelope is the tool's result.\<close>

definition returns :: "envelope \<times> request list \<Rightarrow> outcome" where
  "returns r = (Inr (fst r), snd r)"

section \<open>Pagination\<close>

text \<open>The keyword arguments of one page request, as both loops build them.\<close>

definition page_kwargs :: "string \<Rightarrow> string \<Rightarrow> int \<Rightarrow> json \<Rightarrow> dict" where
  "page_kwargs id_key subject_id page_size start_cursor =
     (let kwargs = [(id_key, JStr subject_id), (''page_size'', JInt page_size)]
      in if truthy start_cursor then AList.update ''start_cursor'' start_cursor kwargs
         else kwargs)"

text \<open>
  The \<^verbatim>\<open>while True\<close> loop of \<^verbatim>\<open>_collect_all_pages_query\<close>, from the state
  \<open>(all_results, start_cursor)\<close>. The loop runs for as long as the collaborator returns
  a cursor, so it is a partial function: \<open>None\<close> is a run that never returns.
\<close>

partial_function (option) collect_all_pages_query_loop ::
  "collaborator \<Rightarrow> string \<Rightarrow> int \<Rightarrow> json list \<Rightarrow> json \<Rightarrow> request list \<Rightarrow> outcome option" where
  "collect_all_pages_query_loop notion database_id page_size all_results start_cursor calls =
     (let kwargs = page_kwargs ''database_id'' database_id page_size start_cursor;
          res = safe_execute notion databases_query kwargs calls
      in if \<not> successful (fst res) then Some (Inr (fst res), snd res)
         else
           (case py_get (data (fst res)) ''results'' (JList []) of
              Inl e \<Rightarrow> Some (Inl e, snd res)
            | Inr results \<Rightarrow>
                (case py_iter results of
                   Inl e \<Rightarrow> Some (Inl e, snd res)
                 | Inr items \<Rightarrow>
                     (case py_get (data (fst res)) ''next_cursor'' JNull of
                        Inl e \<Rightarrow> Some (Inl e, snd res)
                      | Inr next_cursor \<Rightarrow>
                          if \<not> truthy next_cursor then
                            Some (Inr \<lparr>successful = True,
                                       data = JDict [(''results'', JList (all_results @ items))],
                                       error = None\<rparr>, snd res)
                          else collect_all_pages_query_loop notion database_id page_size
                                 (all_results @ items) next_cursor (snd res)))))"

definition collect_all_pages_query ::
  "collaborator \<Rightarrow> string \<Rightarrow> int option \<Rightarrow> request list \<Rightarrow> outcome option" where
  "collect_all_pages_query notion database_id page_size calls =
     collect_all_pages_query_loop notion database_id (dflt 100 page_size) [] JNull calls"

text \<open>The loop of \<^verbatim>\<open>_collect_all_blocks\<close>.\<close>

partial_function (option) collect_all_blocks_loop ::
  "collaborator \<Rightarrow> string \<Rightarrow> int \<Rightarrow> json list \<Rightarrow> json \<Rightarrow> request list \<Rightarrow> outcome option" where
  "collect_all_blocks_loop notion block_id page_size all_results start_cursor calls =
     (let kwargs = page_kwargs ''block_id'' block_id page_size start_cursor;
          res = safe_execute notion blocks_children_list kwargs calls
      in if \<not> successful (fst res) then Some (Inr (fst res), snd res)
         else
           (case py_get (data (fst res)) ''results'' (JList []) of
              Inl e \<Rightarrow> Some (Inl e, snd res)
            | Inr results \<Rightarrow>
                (case py_iter results of
                   Inl e \<Rightarrow> Some (Inl e, snd res)
                 | Inr items \<Rightarrow>
                     (case py_get (data (fst res)) ''next_cursor'' JNull of
                        Inl e \<Rightarrow> Some (Inl e, snd res)
                      | Inr next_cursor \<Rightarrow>
                          if \<not> truthy next_cursor then
                            Some (Inr \<lparr>successful = True,
                                       data = JDict [(''results'', JList (all_results @ items))],
                                       error = None\<rparr>, snd res)
                          else collect_all_blocks_loop notion block_id page_size
                                 (all_results @ items) next_cursor (snd res)))))"

definition collect_all_blocks ::
  "collaborator \<Rightarrow> string \<Rightarrow> int option \<Rightarrow> request list \<Rightarrow> outcome option" where
  "collect_all_blocks notion block_id page_size calls =
     collect_all_blocks_loop notion block_id (dflt 100 page_size) [] JNull calls"

section \<open>Helpers of the tools\<close>

text \<open>\<^verbatim>\<open>if c: d[k] = v\<close>, \<^verbatim>\<open>d.setdefault(k, v)\<close> and \<^verbatim>\<open>d.update(other)\<close>.\<close>

definition set_if :: "bool \<Rightarrow> string \<Rightarrow> json \<Rightarrow> dict \<Rightarrow> dict" where
  "set_if c k v d = (if c then AList.update k v d else d)"

definition setdefault :: "string \<Rightarrow> json \<Rightarrow> dict \<Rightarrow> dict" where
  "setdefault k v d = (if dict_in k d then d else d @ [(k, v)])"

definition dict_update :: "dict \<Rightarrow> dict \<Rightarrow> dict" where
  "dict_update d other = fold (\<lambda>kv acc. AList.update (fst kv) (snd kv) acc) other d"

text \<open>\<^verbatim>\<open>x.items()\<close> and \<^verbatim>\<open>x.values()\<close> on any value.\<close>

fun py_items :: "json \<Rightarrow> exn + (string \<times> json) list" where
  "py_items (JDict d) = Inr d"
| "py_items _ = Inl (AttributeError ''items'')"

fun py_values :: "json \<Rightarrow> exn + json list" where
  "py_values (JDict d) = Inr (map snd d)"
| "py_values _ = Inl (AttributeError ''values'')"

text \<open>A comprehension whose element expression can raise: the first exception ends it.\<close>

fun traverse :: "('a \<Rightarrow> exn + 'b) \<Rightarrow> 'a list \<Rightarrow> exn + 'b list" where
  "traverse f [] = Inr []"
| "traverse f (x # xs) =
     (case f x of
        Inl e \<Rightarrow> Inl e
      | Inr y \<Rightarrow> (case traverse f xs of Inl e \<Rightarrow> Inl e | Inr ys \<Rightarrow> Inr (y # ys)))"

text \<open>\<^verbatim>\<open>"".join(parts)\<close>: every part must be a string.\<close>

fun py_join :: "json list \<Rightarrow> exn + string" where
  "py_join [] = Inr []"
| "py_join (JStr s # ps) = (case py_join ps of Inl e \<Rightarrow> Inl e | Inr r \<Rightarrow> Inr (s @ r))"
| "py_join (_ # ps) = Inl TypeError"

text \<open>\<^verbatim>\<open>isinstance(v, dict) and "title" in v\<close>.\<close>

fun is_title_property :: "json \<Rightarrow> bool" where
  "is_title_property (JDict d) = dict_in ''title'' d"
| "is_title_property _ = False"

text \<open>
  \<^verbatim>\<open>str(x)\<close> in an f-string. \<^verbatim>\<open>repr\<close> of a string picks the quote as Python does and
  escapes the backslash, the quote, newline, carriage return, tab and the characters
  that are not printable; a \<open>char\<close> stands for the code point of the same number.
\<close>

definition digit_char :: "nat \<Rightarrow> char" where
  "digit_char n = ''0123456789abcdef'' ! (n mod 16)"

fun string_of_nat :: "nat \<Rightarrow> string" where
  "string_of_nat n =
     (if n < 10 then [digit_char n] else string_of_nat (n div 10) @ [digit_char (n mod 10)])"

definition py_printable :: "char \<Rightarrow> bool" where
  "py_printable c =
     (let n = (of_char c :: nat) in (32 \<le> n \<and> n < 127) \<or> (161 \<le> n \<and> n \<noteq> 173))"

definition escape_char :: "char \<Rightarrow> char \<Rightarrow> string" where
  "escape_char q c =
     (if c = CHR 0x5C then [CHR 0x5C, CHR 0x5C]
      else if c = q then [CHR 0x5C, q]
      else if c = CHR 0x0A then [CHR 0x5C, CHR ''n'']
      else if c = CHR 0x0D then [CHR 0x5C, CHR ''r'']
      else if c = CHR 0x09 then [CHR 0x5C, CHR ''t'']
      else if py_printable c then [c]
      else [CHR 0x5C, CHR ''x'', digit_char (of_char c div 16), digit_char (of_char c mod 16)])"

definition repr_str :: "string \<Rightarrow> string" where
  "repr_str s =
     (let q = (if CHR 0x27 \<in> set s \<and> CHR 0x22 \<notin> set s then CHR 0x22 else CHR 0x27)
      in [q] @ concat (map (escape_char q) s) @ [q])"

fun join_comma :: "string list \<Rightarrow> string" where
  "join_comma [] = []"
| "join_comma [x] = x"
| "join_comma (x # y # ys) = x @ '', '' @ join_comma (y # ys)"

fun py_repr :: "json \<Rightarrow> string" where
  "py_repr JNull = ''None''"
| "py_repr (JBool b) = (if b then ''True'' else ''False'')"
| "py_repr (JInt i) =
     (if i < 0 then ''-'' @ string_of_nat (nat (- i)) else string_of_nat (nat i))"
| "py_repr (JStr s) = repr_str s"
| "py_repr (JList xs) = ''['' @ join_comma (map py_repr xs) @ '']''"
| "py_repr (JDict d) =
     ''{'' @ join_comma (map (\<lambda>kv. repr_str (fst kv) @ '': '' @ py_repr (snd kv)) d) @ ''}''"

fun py_str :: "json \<Rightarrow> string" where
  "py_str (JStr s) = s"
| "py_str v = py_repr v"

section \<open>The tools\<close>

text \<open>
  Parameters have the types of their annotations: \<^verbatim>\<open>str\<close> is \<open>string\<close>,
  \<^verbatim>\<open>Optional[str] = None\<close> is \<open>string option\<close>, \<^verbatim>\<open>Dict[str, Any]\<close> is \<open>dict\<close>. A
  parameter whose runtime type the code itself inspects (the identifiers handed to
  \<^verbatim>\<open>validate_notion_id\<close>, the block lists tested with \<^verbatim>\<open>isinstance\<close>) is a
  \<open>json\<close>. A parameter with a default other than \<^verbatim>\<open>None\<close> takes an option of its type,
  \<open>None\<close> for the argument left out.

  An exception raised outside \<^verbatim>\<open>safe_execute\<close> escapes from the tool with the calls
  issued so far.
\<close>

definition raising :: "exn + 'a \<Rightarrow> request list \<Rightarrow> ('a \<Rightarrow> outcome) \<Rightarrow> outcome" where
  "raising x calls k = (case x of Inl e \<Rightarrow> (Inl e, calls) | Inr v \<Rightarrow> k v)"

definition external_url :: "json \<Rightarrow> json" where
  "external_url url = JDict [(''external'', JDict [(''url'', url)])]"

definition emoji :: "json \<Rightarrow> json" where
  "emoji icon = JDict [(''emoji'', icon)]"

definition title_text :: "json \<Rightarrow> json" where
  "title_text title = JDict [(''title'', JList [JDict [(''text'', JDict [(''content'', title)])]])]"

definition text_run :: "json \<Rightarrow> json" where
  "text_run content = JDict [(''type'', JStr ''text''), (''text'', JDict [(''content'', content)])]"

definition markdown_to_rich_text :: "json \<Rightarrow> json" where
  "markdown_to_rich_text content = JList [text_run content]"

subsection \<open>Users\<close>

definition NOTION_GET_ABOUT_ME :: "collaborator \<Rightarrow> request list \<Rightarrow> outcome" where
  "NOTION_GET_ABOUT_ME notion calls = returns (safe_execute notion users_me [] calls)"

definition user_summary :: "json \<Rightarrow> exn + json" where
  "user_summary u =
     (case py_get u ''id'' JNull of
        Inl e \<Rightarrow> Inl e
      | Inr i \<Rightarrow>
          (case py_get u ''name'' (JStr ''Unknown'') of
             Inl e \<Rightarrow> Inl e
           | Inr n \<Rightarrow> Inr (JDict [(''id'', i), (''name'', n)])))"

definition NOTION_LIST_USERS ::
  "collaborator \<Rightarrow> int option \<Rightarrow> string option \<Rightarrow> request list \<Rightarrow> outcome" where
  "NOTION_LIST_USERS notion page_size start_cursor calls =
     (let kwargs = [(''page_size'', JInt (dflt 30 page_size))];
          kwargs = set_if (truthy (opt_str start_cursor)) ''start_cursor'' (opt_str start_cursor) kwargs;
          res = safe_execute notion users_list kwargs calls
      in if successful (fst res) then
           raising (py_get (data (fst res)) ''results'' (JList [])) (snd res) (\<lambda>results.
           raising (py_iter results) (snd res) (\<lambda>us.
           raising (traverse user_summary us) (snd res) (\<lambda>simplified.
             (Inr ((fst res)\<lparr>data := JList simplified\<rparr>), snd res))))
         else (Inr (fst res), snd res))"

definition NOTION_GET_ABOUT_USER :: "collaborator \<Rightarrow> json \<Rightarrow> request list \<Rightarrow> outcome" where
  "NOTION_GET_ABOUT_USER notion user_id calls =
     (if \<not> validate_notion_id user_id then (Inr (failure ''Invalid user ID format''), calls)
      else returns (safe_execute notion users_retrieve [(''user_id'', user_id)] calls))"

subsection \<open>Pages\<close>

definition NOTION_CREATE_NOTION_PAGE ::
  "collaborator \<Rightarrow> json \<Rightarrow> string \<Rightarrow> string option \<Rightarrow> string option \<Rightarrow> request list \<Rightarrow> outcome" where
  "NOTION_CREATE_NOTION_PAGE notion parent_id title cover icon calls =
     (if \<not> validate_notion_id parent_id then (Inr (failure ''Invalid parent ID format''), calls)
      else
        (let kwargs = [(''parent'', JDict [(''page_id'', parent_id)]),
                       (''properties'', JDict [(''title'', title_text (JStr title))])];
             kwargs = set_if (truthy (opt_str cover)) ''cover'' (external_url (opt_str cover)) kwargs;
             kwargs = set_if (truthy (opt_str icon)) ''icon'' (emoji (opt_str icon)) kwargs
         in returns (safe_execute notion pages_create kwargs calls)))"

text \<open>
  \<^verbatim>\<open>kwargs["properties"][k] = v\<close> and \<^verbatim>\<open>kwargs["properties"].update(other)\<close>, both
  after \<^verbatim>\<open>kwargs.setdefault("properties", {})\<close>.
\<close>

definition set_property :: "string \<Rightarrow> json \<Rightarrow> dict \<Rightarrow> dict" where
  "set_property k v kwargs =
     AList.map_entry ''properties''
       (\<lambda>p. case p of JDict d \<Rightarrow> JDict (AList.update k v d) | _ \<Rightarrow> p) kwargs"

definition update_properties :: "dict \<Rightarrow> dict \<Rightarrow> dict" where
  "update_properties other kwargs =
     AList.map_entry ''properties''
       (\<lambda>p. case p of JDict d \<Rightarrow> JDict (dict_update d other) | _ \<Rightarrow> p) kwargs"

text \<open>
  \<^verbatim>\<open>next((k for k, v in page_props.items() if isinstance(v, dict) and "title" in v), "Name")\<close>
\<close>

definition title_key_of :: "(string \<times> json) list \<Rightarrow> string" where
  "title_key_of items =
     (case find (\<lambda>kv. is_title_property (snd kv)) items of
        Some kv \<Rightarrow> fst kv
      | None \<Rightarrow> ''Name'')"

text \<open>
  The \<^verbatim>\<open>if title:\<close> block of \<^verbatim>\<open>NOTION_UPDATE_PAGE\<close>: the keyword arguments with the
  title set, and the calls issued, or the exception raised while reading the page.
\<close>

definition update_page_title ::
  "collaborator \<Rightarrow> json \<Rightarrow> json \<Rightarrow> dict \<Rightarrow> request list \<Rightarrow> (exn + dict) \<times> request list" where
  "update_page_title notion page_id title kwargs0 calls =
     (let kwargs = setdefault ''properties'' (JDict []) kwargs0;
          page_meta = safe_execute notion pages_retrieve [(''page_id'', page_id)] calls
      in if successful (fst page_meta) then
           (case py_get (data (fst page_meta)) ''properties'' (JDict []) of
              Inl e \<Rightarrow> (Inl e, snd page_meta)
            | Inr page_props \<Rightarrow>
                (case py_items page_props of
                   Inl e \<Rightarrow> (Inl e, snd page_meta)
                 | Inr items \<Rightarrow>
                     (Inr (set_property (title_key_of items) (title_text title) kwargs),
                      snd page_meta)))
         else (Inr (set_property ''Name'' (title_text title) kwargs), snd page_meta))"

definition NOTION_UPDATE_PAGE ::
  "collaborator \<Rightarrow> json \<Rightarrow> string option \<Rightarrow> bool option \<Rightarrow> string option \<Rightarrow> string option \<Rightarrow>
   dict option \<Rightarrow> request list \<Rightarrow> outcome" where
  "NOTION_UPDATE_PAGE notion page_id title archived cover_url icon_emoji properties calls =
     (if \<not> validate_notion_id page_id then (Inr (failure ''Invalid page_id format''), calls)
      else
        (let kwargs = [];
             kwargs = set_if (archived \<noteq> None) ''archived'' (opt_bool archived) kwargs;
             kwargs = set_if (truthy (opt_str cover_url)) ''cover'' (external_url (opt_str cover_url)) kwargs;
             kwargs = set_if (truthy (opt_str icon_emoji)) ''icon'' (emoji (opt_str icon_emoji)) kwargs;
             titled = (if truthy (opt_str title)
                       then update_page_title notion page_id (opt_str title) kwargs calls
                       else (Inr kwargs, calls))
         in raising (fst titled) (snd titled) (\<lambda>kwargs.
              (let kwargs = (if truthy (opt_dict properties)
                             then update_properties (dflt [] properties)
                                    (setdefault ''properties'' (JDict []) kwargs)
                             else kwargs)
               in returns (safe_execute notion pages_update ((''page_id'', page_id) # kwargs)
                             (snd titled))))))"

definition NOTION_GET_PAGE_PROPERTY_ACTION ::
  "collaborator \<Rightarrow> json \<Rightarrow> string \<Rightarrow> int option \<Rightarrow> string option \<Rightarrow> request list \<Rightarrow> outcome" where
  "NOTION_GET_PAGE_PROPERTY_ACTION notion page_id property_id page_size start_cursor calls =
     (if \<not> validate_notion_id page_id then (Inr (failure ''Invalid page_id format''), calls)
      else
        (let kwargs = [(''page_id'', page_id), (''property_id'', JStr property_id)];
             kwargs = set_if (truthy (opt_int page_size)) ''page_size'' (opt_int page_size) kwargs;
             kwargs = set_if (truthy (opt_str start_cursor)) ''start_cursor'' (opt_str start_cursor) kwargs
         in returns (safe_execute notion pages_properties_retrieve kwargs calls)))"

definition NOTION_ARCHIVE_NOTION_PAGE ::
  "collaborator \<Rightarrow> json \<Rightarrow> bool option \<Rightarrow> request list \<Rightarrow> outcome" where
  "NOTION_ARCHIVE_NOTION_PAGE notion page_id archive calls =
     (if \<not> validate_notion_id page_id then (Inr (failure ''Invalid page_id format''), calls)
      else returns (safe_execute notion pages_update
                      [(''page_id'', page_id), (''archived'', JBool (dflt True archive))] calls))"

text \<open>
  The \<^verbatim>\<open>try\<close> block of \<^verbatim>\<open>list_pages\<close>: the title stays \<^verbatim>\<open>"Untitled"\<close> when any
  exception is raised, when no property holds a title and when the text is empty.
\<close>

definition plain_text :: "json \<Rightarrow> exn + json" where
  "plain_text t = py_get t ''plain_text'' (JStr [])"

definition page_title :: "json \<Rightarrow> string" where
  "page_title pg =
     (case py_get pg ''properties'' (JDict []) of
        Inl e \<Rightarrow> ''Untitled''
      | Inr props \<Rightarrow>
          (case py_values props of
             Inl e \<Rightarrow> ''Untitled''
           | Inr vs \<Rightarrow>
               (case find is_title_property vs of
                  None \<Rightarrow> ''Untitled''
                | Some title_prop \<Rightarrow>
                    if truthy title_prop then
                      (case py_get title_prop ''title'' (JList []) of
                         Inl e \<Rightarrow> ''Untitled''
                       | Inr ts \<Rightarrow>
                           (case py_iter ts of
                              Inl e \<Rightarrow> ''Untitled''
                            | Inr runs \<Rightarrow>
                                (case traverse plain_text runs of
                                   Inl e \<Rightarrow> ''Untitled''
                                 | Inr parts \<Rightarrow>
                                     (case py_join parts of
                                        Inl e \<Rightarrow> ''Untitled''
                                      | Inr joined \<Rightarrow>
                                          if joined = [] then ''Untitled'' else joined))))
                    else ''Untitled'')))"

definition page_summary :: "json \<Rightarrow> exn + json" where
  "page_summary pg =
     (let title = page_title pg
      in case py_get pg ''id'' JNull of
           Inl e \<Rightarrow> Inl e
         | Inr i \<Rightarrow>
             (case py_get pg ''url'' JNull of
                Inl e \<Rightarrow> Inl e
              | Inr u \<Rightarrow> Inr (JDict [(''id'', i), (''title'', JStr title), (''url'', u)])))"

definition list_pages :: "collaborator \<Rightarrow> string option \<Rightarrow> request list \<Rightarrow> outcome" where
  "list_pages notion keyword calls =
     (let search_kwargs = [(''filter'', JDict [(''property'', JStr ''object''), (''value'', JStr ''page'')])];
          search_kwargs = set_if (truthy (opt_str keyword)) ''query'' (opt_str keyword) search_kwargs;
          res = safe_execute notion search search_kwargs calls
      in if \<not> successful (fst res) then (Inr (fst res), snd res)
         else
           raising (py_get (data (fst res)) ''results'' (JList [])) (snd res) (\<lambda>results.
           raising (py_iter results) (snd res) (\<lambda>pgs.
           raising (traverse page_summary pgs) (snd res) (\<lambda>pages.
             (Inr \<lparr>successful = True, data = JList pages, error = Some []\<rparr>, snd res)))))"

subsection \<open>Databases and rows\<close>

definition NOTION_CREATE_DATABASE ::
  "collaborator \<Rightarrow> json \<Rightarrow> string \<Rightarrow> dict \<Rightarrow> request list \<Rightarrow> outcome" where
  "NOTION_CREATE_DATABASE notion parent_id title properties calls =
     (if \<not> validate_notion_id parent_id then (Inr (failure ''Invalid parent_id format''), calls)
      else if \<not> list_ex is_title_property (map snd properties) then
        (Inr (failure ''Database must have at least one title property''), calls)
      else
        (let payload = [(''parent'', JDict [(''type'', JStr ''page_id''), (''page_id'', parent_id)]),
                        (''title'', JList [text_run (JStr title)]),
                        (''properties'', JDict properties)]
         in returns (safe_execute notion databases_create payload calls)))"

definition NOTION_INSERT_ROW_DATABASE ::
  "collaborator \<Rightarrow> json \<Rightarrow> dict \<Rightarrow> string option \<Rightarrow> string option \<Rightarrow> dict list option \<Rightarrow>
   request list \<Rightarrow> outcome" where
  "NOTION_INSERT_ROW_DATABASE notion database_id properties icon cover children calls =
     (if \<not> validate_notion_id database_id then (Inr (failure ''Invalid database_id format''), calls)
      else
        (let payload = [(''parent'', JDict [(''database_id'', database_id)]),
                        (''properties'', JDict properties)];
             payload = set_if (truthy (opt_str icon)) ''icon'' (emoji (opt_str icon)) payload;
             payload = set_if (truthy (opt_str cover)) ''cover'' (external_url (opt_str cover)) payload;
             payload = set_if (truthy (opt_dicts children)) ''children'' (opt_dicts children) payload
         in returns (safe_execute notion pages_create payload calls)))"

text \<open>
  \<^verbatim>\<open>{"property": s["property"], "direction": s.get("direction", "ascending")}\<close>:
  the subscript raises \<^verbatim>\<open>KeyError\<close> on a sort object without the key.
\<close>

definition sort_object :: "dict \<Rightarrow> exn + json" where
  "sort_object s =
     (case map_of s ''property'' of
        None \<Rightarrow> Inl (KeyError ''property'')
      | Some p \<Rightarrow>
          Inr (JDict [(''property'', p),
                      (''direction'', dict_get s ''direction'' (JStr ''ascending''))]))"

definition NOTION_QUERY_DATABASE ::
  "collaborator \<Rightarrow> json \<Rightarrow> int option \<Rightarrow> dict list option \<Rightarrow> string option \<Rightarrow>
   request list \<Rightarrow> outcome" where
  "NOTION_QUERY_DATABASE notion database_id page_size sorts start_cursor calls =
     (if \<not> validate_notion_id database_id then (Inr (failure ''Invalid database_id format''), calls)
      else
        (let payload = [(''page_size'', JInt (dflt 10 page_size))]
         in raising (if truthy (opt_dicts sorts)
                     then (case traverse sort_object (dflt [] sorts) of
                             Inl e \<Rightarrow> Inl e
                           | Inr specs \<Rightarrow> Inr (AList.update ''sorts'' (JList specs) payload))
                     else Inr payload) calls (\<lambda>payload.
              (let payload = set_if (truthy (opt_str start_cursor)) ''start_cursor''
                               (opt_str start_cursor) payload
               in returns (safe_execute notion databases_query
                             ((''database_id'', database_id) # payload) calls)))))"

definition NOTION_FETCH_DATABASE :: "collaborator \<Rightarrow> json \<Rightarrow> request list \<Rightarrow> outcome" where
  "NOTION_FETCH_DATABASE notion database_id calls =
     (if \<not> validate_notion_id database_id then (Inr (failure ''Invalid database_id format''), calls)
      else returns (safe_execute notion databases_retrieve [(''database_id'', database_id)] calls))"

definition NOTION_FETCH_ROW :: "collaborator \<Rightarrow> json \<Rightarrow> request list \<Rightarrow> outcome" where
  "NOTION_FETCH_ROW notion page_id calls =
     (if \<not> validate_notion_id page_id then (Inr (failure ''Invalid page_id format''), calls)
      else returns (safe_execute notion pages_retrieve [(''page_id'', page_id)] calls))"

text \<open>
  \<^verbatim>\<open>archived: Optional[bool] = False\<close>: the outer option is the argument left out, the
  inner one an explicit \<^verbatim>\<open>None\<close>.
\<close>

definition NOTION_UPDATE_ROW_DATABASE ::
  "collaborator \<Rightarrow> json \<Rightarrow> dict option \<Rightarrow> string option \<Rightarrow> string option \<Rightarrow> bool option option \<Rightarrow>
   request list \<Rightarrow> outcome" where
  "NOTION_UPDATE_ROW_DATABASE notion page_id properties icon cover archived_arg calls =
     (let archived = dflt (Some False) archived_arg
      in if \<not> validate_notion_id page_id then (Inr (failure ''Invalid page_id format''), calls)
         else
           (let payload = [];
                payload = set_if (truthy (opt_dict properties)) ''properties'' (opt_dict properties) payload;
                payload = set_if (truthy (opt_str icon)) ''icon'' (emoji (opt_str icon)) payload;
                payload = set_if (truthy (opt_str cover)) ''cover'' (external_url (opt_str cover)) payload;
                payload = set_if (archived \<noteq> None) ''archived'' (opt_bool archived) payload
            in returns (safe_execute notion pages_update ((''page_id'', page_id) # payload) calls)))"

definition NOTION_UPDATE_SCHEMA_DATABASE ::
  "collaborator \<Rightarrow> json \<Rightarrow> string option \<Rightarrow> string option \<Rightarrow> dict option \<Rightarrow> request list \<Rightarrow> outcome" where
  "NOTION_UPDATE_SCHEMA_DATABASE notion database_id title description properties calls =
     (if \<not> validate_notion_id database_id then (Inr (failure ''Invalid database_id format''), calls)
      else
        (let payload = [];
             payload = set_if (truthy (opt_str title)) ''title'' (JList [text_run (opt_str title)]) payload;
             payload = set_if (truthy (opt_str description)) ''description''
                         (JList [text_run (opt_str description)]) payload;
             payload = set_if (truthy (opt_dict properties)) ''properties'' (opt_dict properties) payload
         in returns (safe_execute notion databases_update ((''database_id'', database_id) # payload) calls)))"

subsection \<open>Blocks\<close>

text \<open>
  The loop of \<^verbatim>\<open>NOTION_ADD_MULTIPLE_PAGE_CONTENT\<close> over the blocks: the parsed blocks,
  or the message of the failure envelope the loop returns with.
\<close>

fun is_content_block :: "json \<Rightarrow> bool" where
  "is_content_block (JDict d) = dict_in ''content'' d"
| "is_content_block _ = False"

fun block_content :: "json \<Rightarrow> json" where
  "block_content (JDict d) = dict_get d ''content'' JNull"
| "block_content _ = JNull"

fun parse_blocks :: "json list \<Rightarrow> json list \<Rightarrow> string + json list" where
  "parse_blocks parsed_blocks [] = Inr parsed_blocks"
| "parse_blocks parsed_blocks (block # rest) =
     (if isinstance_dict block \<and> py_get block ''object'' JNull = Inr (JStr ''block'') then
        parse_blocks (parsed_blocks @ [block]) rest
      else if isinstance_dict block \<and> is_content_block block then
        parse_blocks
          (parsed_blocks @
             [JDict [(''object'', JStr ''block''), (''type'', JStr ''paragraph''),
                     (''paragraph'', JDict [(''rich_text'', markdown_to_rich_text (block_content block))])]])
          rest
      else Inl (''Invalid block format: '' @ py_str block))"

text \<open>\<^verbatim>\<open>len(x)\<close> of a value already known to be a list.\<close>

fun list_len :: "json \<Rightarrow> nat" where
  "list_len (JList xs) = length xs"
| "list_len _ = 0"

fun list_items :: "json \<Rightarrow> json list" where
  "list_items (JList xs) = xs"
| "list_items _ = []"

definition NOTION_ADD_MULTIPLE_PAGE_CONTENT ::
  "collaborator \<Rightarrow> json \<Rightarrow> json \<Rightarrow> string option \<Rightarrow> request list \<Rightarrow> outcome" where
  "NOTION_ADD_MULTIPLE_PAGE_CONTENT notion parent_block_id content_blocks after calls =
     (if \<not> validate_notion_id parent_block_id then (Inr (failure ''Invalid parent_block_id''), calls)
      else if \<not> isinstance_list content_blocks \<or> list_len content_blocks = 0 then
        (Inr (failure ''content_blocks must be a non-empty list''), calls)
      else if list_len content_blocks > 100 then
        (Inr (failure ''Maximum 100 blocks per request''), calls)
      else
        (case parse_blocks [] (list_items content_blocks) of
           Inl msg \<Rightarrow> (Inr (failure msg), calls)
         | Inr parsed_blocks \<Rightarrow>
             (let payload = [(''children'', JList parsed_blocks)];
                  payload = set_if (after \<noteq> None) ''after'' (opt_str after) payload
              in returns (safe_execute notion blocks_children_append
                            ((''block_id'', parent_block_id) # payload) calls))))"

definition NOTION_ADD_PAGE_CONTENT ::
  "collaborator \<Rightarrow> json \<Rightarrow> json \<Rightarrow> string option \<Rightarrow> request list \<Rightarrow> outcome" where
  "NOTION_ADD_PAGE_CONTENT notion parent_block_id content_block after calls =
     (if \<not> validate_notion_id parent_block_id then (Inr (failure ''Invalid parent_block_id''), calls)
      else if \<not> isinstance_dict content_block then
        (Inr (failure ''content_block must be an object''), calls)
      else
        (let payload = [(''children'', JList [content_block])];
             payload = set_if (after \<noteq> None) ''after'' (opt_str after) payload
         in returns (safe_execute notion blocks_children_append
                       ((''block_id'', parent_block_id) # payload) calls)))"

definition NOTION_APPEND_BLOCK_CHILDREN ::
  "collaborator \<Rightarrow> json \<Rightarrow> json \<Rightarrow> string option \<Rightarrow> request list \<Rightarrow> outcome" where
  "NOTION_APPEND_BLOCK_CHILDREN notion block_id children after calls =
     (if \<not> validate_notion_id block_id then (Inr (failure ''Invalid block_id''), calls)
      else if \<not> isinstance_list children \<or> list_len children = 0 then
        (Inr (failure ''children must be a non-empty list''), calls)
      else if list_len children > 100 then
        (Inr (failure ''Maximum 100 blocks per request''), calls)
      else
        (let payload = [(''children'', children)];
             payload = set_if (after \<noteq> None) ''after'' (opt_str after) payload
         in returns (safe_execute notion blocks_children_append
                       ((''block_id'', block_id) # payload) calls)))"

text \<open>
  \<^verbatim>\<open>safe_execute(func, block_id=block_id, **block_payload)\<close>, where a key of
  \<^verbatim>\<open>block_payload\<close> is the caller's \<^verbatim>\<open>block_type\<close>: Python raises \<^verbatim>\<open>TypeError\<close>
  at the call, before \<^verbatim>\<open>safe_execute\<close> runs, when a key repeats the keyword
  \<^verbatim>\<open>block_id\<close> or names the positional parameter \<^verbatim>\<open>func\<close>.
\<close>

definition block_update_call ::
  "collaborator \<Rightarrow> json \<Rightarrow> dict \<Rightarrow> request list \<Rightarrow> outcome" where
  "block_update_call notion block_id block_payload calls =
     (if list_ex (\<lambda>k. k = ''block_id'' \<or> k = ''func'') (map fst block_payload) then (Inl TypeError, calls)
      else returns (safe_execute notion blocks_update ((''block_id'', block_id) # block_payload) calls))"

definition rich_text_block :: "string \<Rightarrow> dict option \<Rightarrow> json" where
  "rich_text_block content additional_properties =
     (let body = [(''rich_text'', markdown_to_rich_text (JStr content))]
      in JDict (if truthy (opt_dict additional_properties)
                then dict_update body (dflt [] additional_properties) else body))"

definition NOTION_UPDATE_BLOCK ::
  "collaborator \<Rightarrow> json \<Rightarrow> string \<Rightarrow> string \<Rightarrow> dict option \<Rightarrow> request list \<Rightarrow> outcome" where
  "NOTION_UPDATE_BLOCK notion block_id block_type content additional_properties calls =
     (if \<not> validate_notion_id block_id then (Inr (failure ''Invalid block_id''), calls)
      else if block_type \<in> set [''paragraph'', ''heading_1'', ''heading_2'', ''heading_3'',
                                 ''bulleted_list_item'', ''numbered_list_item'', ''quote''] then
        block_update_call notion block_id
          [(block_type, rich_text_block content additional_properties)] calls
      else if block_type = ''to_do'' then
        block_update_call notion block_id
          [(''to_do'', rich_text_block content additional_properties)] calls
      else if \<not> truthy (opt_dict additional_properties) then
        (Inr (failure (''Unsupported block_type '' @ [CHR 0x27] @ block_type @ [CHR 0x27] @
                       '' without additional_properties'')), calls)
      else
        block_update_call notion block_id [(block_type, opt_dict additional_properties)] calls)"

definition NOTION_DELETE_BLOCK :: "collaborator \<Rightarrow> json \<Rightarrow> request list \<Rightarrow> outcome" where
  "NOTION_DELETE_BLOCK notion block_id calls =
     (if \<not> validate_notion_id block_id then (Inr (failure ''Invalid block_id''), calls)
      else returns (safe_execute notion blocks_update
                      [(''block_id'', block_id), (''archived'', JBool True)] calls))"

definition NOTION_FETCH_BLOCK_CONTENTS ::
  "collaborator \<Rightarrow> json \<Rightarrow> int option \<Rightarrow> string option \<Rightarrow> request list \<Rightarrow> outcome" where
  "NOTION_FETCH_BLOCK_CONTENTS notion block_id page_size start_cursor calls =
     (if \<not> validate_notion_id block_id then (Inr (failure ''Invalid block_id''), calls)
      else
        (let kwargs = [(''block_id'', block_id)];
             kwargs = set_if (truthy (opt_int page_size)) ''page_size'' (opt_int page_size) kwargs;
             kwargs = set_if (truthy (opt_str start_cursor)) ''start_cursor'' (opt_str start_cursor) kwargs
         in returns (safe_execute notion blocks_children_list kwargs calls)))"

definition NOTION_FETCH_BLOCK_METADATA :: "collaborator \<Rightarrow> json \<Rightarrow> request list \<Rightarrow> outcome" where
  "NOTION_FETCH_BLOCK_METADATA notion block_id calls =
     (if \<not> validate_notion_id block_id then (Inr (failure ''Invalid block_id''), calls)
      else returns (safe_execute notion blocks_retrieve [(''block_id'', block_id)] calls))"

subsection \<open>Comments\<close>

definition NOTION_CREATE_COMMENT ::
  "collaborator \<Rightarrow> dict \<Rightarrow> string option \<Rightarrow> string option \<Rightarrow> request list \<Rightarrow> outcome" where
  "NOTION_CREATE_COMMENT notion comment discussion_id parent_page_id calls =
     (if \<not> truthy (opt_str discussion_id) \<and> \<not> truthy (opt_str parent_page_id) then
        (Inr (failure ''Either discussion_id or parent_page_id must be provided.''), calls)
      else
        (let payload = [(''rich_text'', JList [text_run (dict_get comment ''content'' (JStr []))])];
             payload = (if truthy (opt_str discussion_id)
                        then AList.update ''discussion_id'' (opt_str discussion_id) payload
                        else AList.update ''parent''
                               (JDict [(''type'', JStr ''page_id''), (''page_id'', opt_str parent_page_id)])
                               payload)
         in returns (safe_execute notion comments_create payload calls)))"

text \<open>The \<^verbatim>\<open>for c in ...\<close> scan of \<^verbatim>\<open>NOTION_GET_COMMENT_BY_ID\<close>.\<close>

fun find_comment :: "string \<Rightarrow> json list \<Rightarrow> exn + json option" where
  "find_comment comment_id [] = Inr None"
| "find_comment comment_id (c # cs) =
     (case py_get c ''id'' JNull of
        Inl e \<Rightarrow> Inl e
      | Inr i \<Rightarrow> if i = JStr comment_id then Inr (Some c) else find_comment comment_id cs)"

definition NOTION_GET_COMMENT_BY_ID ::
  "collaborator \<Rightarrow> string \<Rightarrow> string \<Rightarrow> request list \<Rightarrow> outcome" where
  "NOTION_GET_COMMENT_BY_ID notion parent_block_id comment_id calls =
     (if \<not> truthy (JStr parent_block_id) \<or> \<not> truthy (JStr comment_id) then
        (Inr (failure ''parent_block_id and comment_id are required.''), calls)
      else
        (let kwargs = [(''block_id'', JStr parent_block_id), (''page_size'', JInt 100)];
             res = safe_execute notion comments_list kwargs calls
         in if \<not> successful (fst res) then (Inr (fst res), snd res)
            else
              raising (py_get (data (fst res)) ''results'' (JList [])) (snd res) (\<lambda>results.
              raising (py_iter results) (snd res) (\<lambda>cs.
              raising (find_comment comment_id cs) (snd res) (\<lambda>found.
                (case found of
                   Some c \<Rightarrow> (Inr \<lparr>successful = True, data = c, error = None\<rparr>, snd res)
                 | None \<Rightarrow>
                     (Inr (failure (''Comment with ID '' @ comment_id @ '' not found.'')),
                      snd res)))))))"

definition NOTION_FETCH_COMMENTS ::
  "collaborator \<Rightarrow> string \<Rightarrow> int option option \<Rightarrow> string option \<Rightarrow> request list \<Rightarrow> outcome" where
  "NOTION_FETCH_COMMENTS notion block_id page_size start_cursor calls =
     (if \<not> truthy (JStr block_id) then (Inr (failure ''block_id is required.''), calls)
      else
        (let kwargs = [(''block_id'', JStr block_id),
                       (''page_size'', opt_int (dflt (Some 100) page_size))];
             kwargs = set_if (start_cursor \<noteq> None) ''start_cursor'' (opt_str start_cursor) kwargs
         in returns (safe_execute notion comments_list kwargs calls)))"

subsection \<open>Search\<close>

definition NOTION_SEARCH_NOTION_PAGE ::
  "collaborator \<Rightarrow> string option option \<Rightarrow> int option \<Rightarrow> string option \<Rightarrow> request list \<Rightarrow> outcome" where
  "NOTION_SEARCH_NOTION_PAGE notion query page_size start_cursor calls =
     (let kwargs = [(''page_size'', JInt (dflt 10 page_size)),
                    (''query'', opt_str (dflt (Some []) query))];
          kwargs = set_if (truthy (opt_str start_cursor)) ''start_cursor'' (opt_str start_cursor) kwargs
      in returns (safe_execute notion search kwargs calls))"

definition NOTION_FETCH_DATA ::
  "collaborator \<Rightarrow> bool option \<Rightarrow> bool option \<Rightarrow> bool option \<Rightarrow> int option \<Rightarrow> string option \<Rightarrow>
   request list \<Rightarrow> outcome" where
  "NOTION_FETCH_DATA notion get_all get_databases get_pages page_size query calls =
     (let kwargs = [(''page_size'', JInt (dflt 100 page_size))];
          kwargs = set_if (truthy (opt_str query)) ''query'' (opt_str query) kwargs
      in if dflt False get_all then returns (safe_execute notion search kwargs calls)
         else
           (let kwargs = (if dflt False get_databases
                          then AList.update ''filter''
                                 (JDict [(''property'', JStr ''object''), (''value'', JStr ''database'')]) kwargs
                          else AList.update ''filter''
                                 (JDict [(''property'', JStr ''object''), (''value'', JStr ''page'')]) kwargs)
            in returns (safe_execute notion search kwargs calls)))"

section \<open>The tool surface\<close>

text \<open>
  The functions registered with \<^verbatim>\<open>@mcp.tool()\<close>: a call names a tool and gives its
  arguments.
\<close>

datatype tool_call =
    GET_ABOUT_ME
  | LIST_USERS "int option" "string option"
  | GET_ABOUT_USER json
  | CREATE_NOTION_PAGE json string "string option" "string option"
  | UPDATE_PAGE json "string option" "bool option" "string option" "string option" "dict option"
  | GET_PAGE_PROPERTY_ACTION json string "int option" "string option"
  | ARCHIVE_NOTION_PAGE json "bool option"
  | LIST_PAGES "string option"
  | CREATE_DATABASE json string dict
  | INSERT_ROW_DATABASE json dict "string option" "string option" "dict list option"
  | QUERY_DATABASE json "int option" "dict list option" "string option"
  | FETCH_DATABASE json
  | FETCH_ROW json
  | UPDATE_ROW_DATABASE json "dict option" "string option" "string option" "bool option option"
  | UPDATE_SCHEMA_DATABASE json "string option" "string option" "dict option"
  | ADD_MULTIPLE_PAGE_CONTENT json json "string option"
  | ADD_PAGE_CONTENT json json "string option"
  | APPEND_BLOCK_CHILDREN json json "string option"
  | UPDATE_BLOCK json string string "dict option"
  | DELETE_BLOCK json
  | FETCH_BLOCK_CONTENTS json "int option" "string option"
  | FETCH_BLOCK_METADATA json
  | CREATE_COMMENT dict "string option" "string option"
  | GET_COMMENT_BY_ID string string
  | FETCH_COMMENTS string "int option option" "string option"
  | SEARCH_NOTION_PAGE "string option option" "int option" "string option"
  | FETCH_DATA "bool option" "bool option" "bool option" "int option" "string option"

fun run_tool :: "collaborator \<Rightarrow> tool_call \<Rightarrow> request list \<Rightarrow> outcome" where
  "run_tool notion GET_ABOUT_ME calls = NOTION_GET_ABOUT_ME notion calls"
| "run_tool notion (LIST_USERS page_size start_cursor) calls =
     NOTION_LIST_USERS notion page_size start_cursor calls"
| "run_tool notion (GET_ABOUT_USER user_id) calls = NOTION_GET_ABOUT_USER notion user_id calls"
| "run_tool notion (CREATE_NOTION_PAGE parent_id title cover icon) calls =
     NOTION_CREATE_NOTION_PAGE notion parent_id title cover icon calls"
| "run_tool notion (UPDATE_PAGE page_id title archived cover_url icon_emoji properties) calls =
     NOTION_UPDATE_PAGE notion page_id title archived cover_url icon_emoji properties calls"
| "run_tool notion (GET_PAGE_PROPERTY_ACTION page_id property_id page_size start_cursor) calls =
     NOTION_GET_PAGE_PROPERTY_ACTION notion page_id property_id page_size start_cursor calls"
| "run_tool notion (ARCHIVE_NOTION_PAGE page_id archive) calls =
     NOTION_ARCHIVE_NOTION_PAGE notion page_id archive calls"
| "run_tool notion (LIST_PAGES keyword) calls = list_pages notion keyword calls"
| "run_tool notion (CREATE_DATABASE parent_id title properties) calls =
     NOTION_CREATE_DATABASE notion parent_id title properties calls"
| "run_tool notion (INSERT_ROW_DATABASE database_id properties icon cover children) calls =
     NOTION_INSERT_ROW_DATABASE notion database_id properties icon cover children calls"
| "run_tool notion (QUERY_DATABASE database_id page_size sorts start_cursor) calls =
     NOTION_QUERY_DATABASE notion database_id page_size sorts start_cursor calls"
| "run_tool notion (FETCH_DATABASE database_id) calls = NOTION_FETCH_DATABASE notion database_id calls"
| "run_tool notion (FETCH_ROW page_id) calls = NOTION_FETCH_ROW notion page_id calls"
| "run_tool notion (UPDATE_ROW_DATABASE page_id properties icon cover archived) calls =
     NOTION_UPDATE_ROW_DATABASE notion page_id properties icon cover archived calls"
| "run_tool notion (UPDATE_SCHEMA_DATABASE database_id title description properties) calls =
     NOTION_UPDATE_SCHEMA_DATABASE notion database_id title description properties calls"
| "run_tool notion (ADD_MULTIPLE_PAGE_CONTENT parent_block_id content_blocks after) calls =
     NOTION_ADD_MULTIPLE_PAGE_CONTENT notion parent_block_id content_blocks after calls"
| "run_tool notion (ADD_PAGE_CONTENT parent_block_id content_block after) calls =
     NOTION_ADD_PAGE_CONTENT notion parent_block_id content_block after calls"
| "run_tool notion (APPEND_BLOCK_CHILDREN block_id children after) calls =
     NOTION_APPEND_BLOCK_CHILDREN notion block_id children after calls"
| "run_tool notion (UPDATE_BLOCK block_id block_type content additional_properties) calls =
     NOTION_UPDATE_BLOCK notion block_id block_type content additional_properties calls"
| "run_tool notion (DELETE_BLOCK block_id) calls = NOTION_DELETE_BLOCK notion block_id calls"
| "run_tool notion (FETCH_BLOCK_CONTENTS block_id page_size start_cursor) calls =
     NOTION_FETCH_BLOCK_CONTENTS notion block_id page_size start_cursor calls"
| "run_tool notion (FETCH_BLOCK_METADATA block_id) calls =
     NOTION_FETCH_BLOCK_METADATA notion block_id calls"
| "run_tool notion (CREATE_COMMENT comment discussion_id parent_page_id) calls =
     NOTION_CREATE_COMMENT notion comment discussion_id parent_page_id calls"
| "run_tool notion (GET_COMMENT_BY_ID parent_block_id comment_id) calls =
     NOTION_GET_COMMENT_BY_ID notion parent_block_id comment_id calls"
| "run_tool notion (FETCH_COMMENTS block_id page_size start_cursor) calls =
     NOTION_FETCH_COMMENTS notion block_id page_size start_cursor calls"
| "run_tool notion (SEARCH_NOTION_PAGE query page_size start_cursor) calls =
     NOTION_SEARCH_NOTION_PAGE notion query page_size start_cursor calls"
| "run_tool notion (FETCH_DATA get_all get_databases get_pages page_size query) calls =
     NOTION_FETCH_DATA notion get_all get_databases get_pages page_size query calls"

section \<open>Describing a paginated run\<close>

text \<open>
  What a page of a listing holds, as the loops read it: the cursor
  (\<^verbatim>\<open>.get("next_cursor")\<close>) and the items (\<^verbatim>\<open>.get("results", [])\<close>), which are a list
  on a well-formed page.
\<close>

definition page_cursor :: "dict \<Rightarrow> json" where
  "page_cursor page = dict_get page ''next_cursor'' JNull"

definition page_items :: "dict \<Rightarrow> json list" where
  "page_items page = list_items (dict_get page ''results'' (JList []))"

definition results_ok :: "dict \<Rightarrow> bool" where
  "results_ok page = isinstance_list (dict_get page ''results'' (JList []))"

text \<open>
  The requests of a run, from the cursors the pages returned: one request with the
  starting cursor, then one with each cursor returned.
\<close>

fun page_requests :: "(json \<Rightarrow> request) \<Rightarrow> json \<Rightarrow> json list \<Rightarrow> request list" where
  "page_requests mk cur [] = [mk cur]"
| "page_requests mk cur (c # cs) = mk cur # page_requests mk c cs"

text \<open>
  The collaborator answers the given requests, issued one after the other, with the given
  answers.
\<close>

fun serves :: "collaborator \<Rightarrow> request list \<Rightarrow> request list \<Rightarrow> (string + json) list \<Rightarrow> bool" where
  "serves notion calls [] [] = True"
| "serves notion calls (r # rs) (a # as) = (notion calls r = a \<and> serves notion (calls @ [r]) rs as)"
| "serves notion calls _ _ = False"

definition query_request :: "string \<Rightarrow> int \<Rightarrow> json \<Rightarrow> request" where
  "query_request database_id page_size cursor =
     (databases_query, page_kwargs ''database_id'' database_id page_size cursor)"

definition children_request :: "string \<Rightarrow> int \<Rightarrow> json \<Rightarrow> request" where
  "children_request block_id page_size cursor =
     (blocks_children_list, page_kwargs ''block_id'' block_id page_size cursor)"


section \<open>Identifier checks of the tools\<close>

text \<open>
  The argument each tool hands to \<^verbatim>\<open>validate_notion_id\<close> before anything else, and,
  for the comment tools, which only test that their identifiers are present
  (\<^verbatim>\<open>if not discussion_id and not parent_page_id\<close>,
  \<^verbatim>\<open>if not parent_block_id or not comment_id\<close>, \<^verbatim>\<open>if not block_id\<close>), whether that
  test fails.
\<close>

fun validated_identifier :: "tool_call \<Rightarrow> json option" where
  "validated_identifier (GET_ABOUT_USER user_id) = Some user_id"
| "validated_identifier (CREATE_NOTION_PAGE parent_id title cover icon) = Some parent_id"
| "validated_identifier (UPDATE_PAGE page_id title archived cover_url icon_emoji properties) = Some page_id"
| "validated_identifier (GET_PAGE_PROPERTY_ACTION page_id property_id page_size start_cursor) = Some page_id"
| "validated_identifier (ARCHIVE_NOTION_PAGE page_id archive) = Some page_id"
| "validated_identifier (CREATE_DATABASE parent_id title properties) = Some parent_id"
| "validated_identifier (INSERT_ROW_DATABASE database_id properties icon cover children) = Some database_id"
| "validated_identifier (QUERY_DATABASE database_id page_size sorts start_cursor) = Some database_id"
| "validated_identifier (FETCH_DATABASE database_id) = Some database_id"
| "validated_identifier (FETCH_ROW page_id) = Some page_id"
| "validated_identifier (UPDATE_ROW_DATABASE page_id properties icon cover archived) = Some page_id"
| "validated_identifier (UPDATE_SCHEMA_DATABASE database_id title description properties) = Some database_id"
| "validated_identifier (ADD_MULTIPLE_PAGE_CONTENT parent_block_id content_blocks after) = Some parent_block_id"
| "validated_identifier (ADD_PAGE_CONTENT parent_block_id content_block after) = Some parent_block_id"
| "validated_identifier (APPEND_BLOCK_CHILDREN block_id children after) = Some block_id"
| "validated_identifier (UPDATE_BLOCK block_id block_type content additional_properties) = Some block_id"
| "validated_identifier (DELETE_BLOCK block_id) = Some block_id"
| "validated_identifier (FETCH_BLOCK_CONTENTS block_id page_size start_cursor) = Some block_id"
| "validated_identifier (FETCH_BLOCK_METADATA block_id) = Some block_id"
| "validated_identifier _ = None"

fun missing_identifier :: "tool_call \<Rightarrow> bool" where
  "missing_identifier (CREATE_COMMENT comment discussion_id parent_page_id) =
     (\<not> truthy (opt_str discussion_id) \<and> \<not> truthy (opt_str parent_page_id))"
| "missing_identifier (GET_COMMENT_BY_ID parent_block_id comment_id) =
     (parent_block_id = [] \<or> comment_id = [])"
| "missing_identifier (FETCH_COMMENTS block_id page_size start_cursor) = (block_id = [])"
| "missing_identifier _ = False"

section \<open>Collaborators for the examples\<close>

text \<open>A collaborator that is never reached, one that accepts every call, and a search
  that finds one page.\<close>

definition unreachable :: collaborator where
  "unreachable calls req = Inl ''unreachable''"

definition accepting :: collaborator where
  "accepting calls req = Inr (JDict [(''object'', JStr ''page'')])"

definition one_page :: collaborator where
  "one_page calls req =
     Inr (JDict [(''results'', JList [JDict
       [(''id'', JStr ''p1''), (''url'', JStr ''https://notion.so/p1''),
        (''properties'', JDict [(''Name'', JDict [(''title'',
           JList [JDict [(''plain_text'', JStr ''Hello'')]])])])]])])"

definition three_pages :: collaborator where
  "three_pages calls req =
     (case map_of (snd req) ''start_cursor'' of
        None \<Rightarrow>
          Inr (JDict [(''results'', JList [JStr ''r1'', JStr ''r2'']), (''next_cursor'', JStr ''c1'')])
      | Some c \<Rightarrow>
          if c = JStr ''c1''
          then Inr (JDict [(''results'', JList [JStr ''r3'']), (''next_cursor'', JStr ''c2'')])
          else Inr (JDict [(''results'', JList [JStr ''r4'']), (''next_cursor'', JNull)]))"

definition second_page_fails :: collaborator where
  "second_page_fails calls req =
     (case map_of (snd req) ''start_cursor'' of
        None \<Rightarrow> Inr (JDict [(''results'', JList [JStr ''r1'']), (''next_cursor'', JStr ''c1'')])
      | Some c \<Rightarrow> Inl ''rate limited'')"

definition empty_cursor :: collaborator where
  "empty_cursor calls req =
     (if calls = []
      then Inr (JDict [(''results'', JList [JStr ''r1'']), (''next_cursor'', JStr [])])
      else Inr (JDict [(''results'', JList [JStr ''r2'']), (''next_cursor'', JNull)]))"

definition one_comment :: collaborator where
  "one_comment calls req =
     Inr (JDict [(''results'', JList [JDict [(''id'', JStr ''c1''), (''object'', JStr ''comment'')]])])"

definition titled_page :: collaborator where
  "titled_page calls req =
     (if fst req = pages_retrieve
      then Inr (JDict [(''id'', JStr ''0123456789abcdef0123456789abcdef''),
                       (''properties'', JDict [(''Status'', JDict [(''select'', JNull)]),
                                               (''Task'', JDict [(''id'', JStr ''title''),
                                                                 (''title'', JList [])])])])
      else Inr (JDict [(''object'', JStr ''page'')]))"

definition retrieve_fails :: collaborator where
  "retrieve_fails calls req =
     (if fst req = pages_retrieve then Inl ''Could not find page''
      else Inr (JDict [(''object'', JStr ''page'')]))"

section \<open>The identifier validator: properties\<close>

lemma valid_sample_id: "validate_notion_id (JStr ''0123456789abcdef0123456789abcdef'')"
  by (simp add: validate_notion_id_def uuid_re_match_def dollar_def hex_or_dash_def)

lemma validate_notion_id_str: "validate_notion_id j \<Longrightarrow> \<exists>s. j = JStr s \<and> s \<noteq> []"
  by (cases j) (auto simp: validate_notion_id_def)

lemma uuid_re_match_full:
  assumes "32 \<le> length s" "length s \<le> 36" "list_all hex_or_dash s"
  shows "uuid_re_match s"
proof -
  have "length s \<in> set [32 ..< 37]"
    unfolding set_upt atLeastLessThan_iff using assms by arith
  moreover have "length s \<le> length s \<and> list_all hex_or_dash (take (length s) s)
      \<and> dollar (drop (length s) s)"
    using assms by (simp add: dollar_def)
  ultimately show ?thesis unfolding uuid_re_match_def list_ex_iff by blast
qed

text \<open>
  What the pattern accepts: the strings of 32 to 36 hexadecimal digits and dashes, and
  the same strings followed by one newline.
\<close>

lemma uuid_re_match_iff:
  "uuid_re_match s =
     ((32 \<le> length s \<and> length s \<le> 36 \<and> list_all hex_or_dash s) \<or>
      (\<exists>t. s = t @ [CHR 0x0A] \<and> 32 \<le> length t \<and> length t \<le> 36 \<and> list_all hex_or_dash t))"
  (is "?L = ?R")
proof
  assume ?L
  then obtain n where n: "32 \<le> n" "n < 37" "n \<le> length s"
      "list_all hex_or_dash (take n s)" "dollar (drop n s)"
    unfolding uuid_re_match_def list_ex_iff set_upt Bex_def atLeastLessThan_iff by blast
  from n(5) consider "drop n s = []" | "drop n s = [CHR 0x0A]" by (auto simp: dollar_def)
  then show ?R
  proof cases
    case 1
    with n have "length s = n" by simp
    with n show ?thesis by simp
  next
    case 2
    have "s = take n s @ drop n s" by simp
    with 2 have s: "s = take n s @ [CHR 0x0A]" by simp
    have "length (take n s) = n" using n by simp
    moreover have "n \<le> 36" using n(2) by arith
    ultimately show ?thesis using n(1,4) s by metis
  qed
next
  assume ?R
  then show ?L
  proof
    assume "32 \<le> length s \<and> length s \<le> 36 \<and> list_all hex_or_dash s"
    then show ?L by (simp add: uuid_re_match_full)
  next
    assume "\<exists>t. s = t @ [CHR 0x0A] \<and> 32 \<le> length t \<and> length t \<le> 36 \<and> list_all hex_or_dash t"
    then obtain t where t: "s = t @ [CHR 0x0A]" "32 \<le> length t" "length t \<le> 36"
        "list_all hex_or_dash t"
      by blast
    have "length t \<in> set [32 ..< 37]"
      unfolding set_upt atLeastLessThan_iff using t by arith
    moreover have "length t \<le> length s \<and> list_all hex_or_dash (take (length t) s)
        \<and> dollar (drop (length t) s)"
      using t by (simp add: dollar_def)
    ultimately show ?L unfolding uuid_re_match_def list_ex_iff by blast
  qed
qed

text \<open>
  Claim C6: the validator accepts an input exactly when the full string consists of 32
  to 36 hexadecimal digits and dashes. The code accepts more: a string of 32 such
  characters followed by a newline has 33 characters, one of them outside the class,
  and is accepted, because \<^verbatim>\<open>$\<close> matches before a final newline.
\<close>

theorem validate_notion_id_accepts_trailing_newline:
  "validate_notion_id (JStr (''0123456789abcdef0123456789abcdef'' @ [CHR 0x0A]))
   \<and> \<not> list_all hex_or_dash (''0123456789abcdef0123456789abcdef'' @ [CHR 0x0A])"
  by (simp add: validate_notion_id_def uuid_re_match_def dollar_def hex_or_dash_def)

theorem validate_notion_id_trailing_newline_witness:
  "validate_notion_id (JStr (''0123456789abcdef0123456789abcdef'' @ [CHR 0x0A])) = True"
  using validate_notion_id_accepts_trailing_newline by simp

section \<open>Request shaping\<close>

text \<open>
  Claim C10: two \<^verbatim>\<open>NOTION_FETCH_DATA\<close> calls that differ only in \<^verbatim>\<open>get_pages\<close>
  have the same outcome. The one request sent is a search whose filter depends on
  \<^verbatim>\<open>get_all\<close> (no filter) and \<^verbatim>\<open>get_databases\<close> (\<^verbatim>\<open>"database"\<close>, otherwise
  \<^verbatim>\<open>"page"\<close>) only.
\<close>

theorem fetch_data_ignores_get_pages:
  "NOTION_FETCH_DATA notion get_all get_databases get_pages page_size query calls =
     NOTION_FETCH_DATA notion get_all get_databases get_pages' page_size query calls
   \<and> NOTION_FETCH_DATA notion get_all get_databases get_pages page_size query calls =
     returns (safe_execute notion search
       ([(''page_size'', JInt (dflt 100 page_size))] @
        (if truthy (opt_str query) then [(''query'', opt_str query)] else []) @
        (if dflt False get_all then []
         else [(''filter'', JDict [(''property'', JStr ''object''),
                 (''value'', JStr (if dflt False get_databases then ''database'' else ''page''))])]))
       calls)"
  by (simp add: NOTION_FETCH_DATA_def set_if_def)

text \<open>
  Claim C9: when the caller leaves \<^verbatim>\<open>archived\<close> out of a
  \<^verbatim>\<open>NOTION_UPDATE_ROW_DATABASE\<close> call, the request sent to the collaborator carries
  \<^verbatim>\<open>archived = False\<close>, whatever the other arguments are. (No request is sent when
  the identifier is rejected.)
\<close>

theorem update_row_archived_defaults_to_false:
  "NOTION_UPDATE_ROW_DATABASE notion page_id properties icon cover None calls =
   (if \<not> validate_notion_id page_id then (Inr (failure ''Invalid page_id format''), calls)
    else returns (safe_execute notion pages_update
       ([(''page_id'', page_id)] @
        (if truthy (opt_dict properties) then [(''properties'', opt_dict properties)] else []) @
        (if truthy (opt_str icon) then [(''icon'', emoji (opt_str icon))] else []) @
        (if truthy (opt_str cover) then [(''cover'', external_url (opt_str cover))] else []) @
        [(''archived'', JBool False)]) calls))"
  by (auto simp: NOTION_UPDATE_ROW_DATABASE_def set_if_def Let_def)

theorem update_row_archived_defaults_to_false_witness:
  "NOTION_UPDATE_ROW_DATABASE accepting (JStr ''0123456789abcdef0123456789abcdef'')
     (Some [(''Status'', JDict [(''select'', JDict [(''name'', JStr ''Done'')])])]) None None None [] =
   (Inr \<lparr>successful = True, data = JDict [(''object'', JStr ''page'')], error = None\<rparr>,
    [(pages_update,
      [(''page_id'', JStr ''0123456789abcdef0123456789abcdef''),
       (''properties'', JDict [(''Status'', JDict [(''select'', JDict [(''name'', JStr ''Done'')])])]),
       (''archived'', JBool False)])])"
  using update_row_archived_defaults_to_false
    [of accepting "JStr ''0123456789abcdef0123456789abcdef''"
        "Some [(''Status'', JDict [(''select'', JDict [(''name'', JStr ''Done'')])])]" None None "[]"]
    valid_sample_id
  by (simp add: returns_def safe_execute_def accepting_def)

section \<open>Failures\<close>

text \<open>
  Claim C2: no tool lets an exception escape. \<^verbatim>\<open>NOTION_QUERY_DATABASE\<close> builds its
  sort list outside \<^verbatim>\<open>safe_execute\<close> and reads \<^verbatim>\<open>s["property"]\<close> with a subscript:
  a sort object without that key raises \<^verbatim>\<open>KeyError\<close>, which escapes from the tool
  before any call is made.
\<close>

theorem query_database_sort_without_property_raises:
  "NOTION_QUERY_DATABASE notion (JStr ''0123456789abcdef0123456789abcdef'') None
     (Some [[(''direction'', JStr ''descending'')]]) None calls =
   (Inl (KeyError ''property''), calls)"
  by (simp add: NOTION_QUERY_DATABASE_def valid_sample_id raising_def sort_object_def)

text \<open>
  Claim C5: a successful envelope has \<^verbatim>\<open>error\<close> equal to null. Every envelope that
  \<^verbatim>\<open>list_pages\<close> returns with \<^verbatim>\<open>successful = True\<close> has the empty string there
  instead.
\<close>

theorem list_pages_success_error_is_empty_string:
  assumes "list_pages notion keyword calls = (Inr env, calls')" "successful env"
  shows "error env = Some []"
  using assms
  by (auto simp: list_pages_def raising_def safe_execute_def Let_def split: sum.splits if_splits)

theorem list_pages_success_error_witness:
  "list_pages one_page None [] =
     (Inr \<lparr>successful = True,
           data = JList [JDict [(''id'', JStr ''p1''), (''title'', JStr ''Hello''),
                                (''url'', JStr ''https://notion.so/p1'')]],
           error = Some []\<rparr>,
      [(search, [(''filter'', JDict [(''property'', JStr ''object''), (''value'', JStr ''page'')])])])
   \<and> error \<lparr>successful = True,
           data = JList [JDict [(''id'', JStr ''p1''), (''title'', JStr ''Hello''),
                                (''url'', JStr ''https://notion.so/p1'')]],
           error = Some []\<rparr> \<noteq> None"
proof -
  have run: "list_pages one_page None [] =
     (Inr \<lparr>successful = True,
           data = JList [JDict [(''id'', JStr ''p1''), (''title'', JStr ''Hello''),
                                (''url'', JStr ''https://notion.so/p1'')]],
           error = Some []\<rparr>,
      [(search, [(''filter'', JDict [(''property'', JStr ''object''), (''value'', JStr ''page'')])])])"
    by (simp add: list_pages_def safe_execute_def one_page_def set_if_def raising_def dict_get_def
        page_summary_def page_title_def dict_in_def plain_text_def)
  from list_pages_success_error_is_empty_string [OF run] run show ?thesis by simp
qed

section \<open>Pagination: properties\<close>

lemma results_ok_iter:
  "results_ok P \<Longrightarrow> py_iter (dict_get P ''results'' (JList [])) = Inr (page_items P)"
  by (cases "dict_get P ''results'' (JList [])") (auto simp: results_ok_def page_items_def)


lemma query_loop_pages:
  assumes "pages \<noteq> []" "list_all results_ok pages"
    "list_all (\<lambda>P. truthy (page_cursor P)) (butlast pages)"
    "\<not> truthy (page_cursor (last pages))"
    "serves notion calls
       (page_requests (query_request database_id page_size) cur (map page_cursor (butlast pages)))
       (map (\<lambda>P. Inr (JDict P)) pages)"
  shows "collect_all_pages_query_loop notion database_id page_size acc cur calls =
     Some (Inr \<lparr>successful = True,
                data = JDict [(''results'', JList (acc @ concat (map page_items pages)))],
                error = None\<rparr>,
           calls @ page_requests (query_request database_id page_size) cur
                     (map page_cursor (butlast pages)))"
  using assms
proof (induction pages arbitrary: acc cur calls)
  case Nil
  then show ?case by simp
next
  case (Cons P Ps)
  show ?case
  proof (cases "Ps = []")
    case True
    with Cons.prems show ?thesis
      by (subst collect_all_pages_query_loop.simps)
         (simp add: safe_execute_def query_request_def [symmetric] results_ok_iter
            page_cursor_def [symmetric])
  next
    case False
    with Cons.prems have
      ans: "notion calls (query_request database_id page_size cur) = Inr (JDict P)"
      and rest: "serves notion (calls @ [query_request database_id page_size cur])
         (page_requests (query_request database_id page_size) (page_cursor P)
            (map page_cursor (butlast Ps)))
         (map (\<lambda>P. Inr (JDict P)) Ps)"
      and ok: "results_ok P" "list_all results_ok Ps"
      and tr: "truthy (page_cursor P)" "list_all (\<lambda>P. truthy (page_cursor P)) (butlast Ps)"
      and la: "\<not> truthy (page_cursor (last Ps))"
      by simp_all
    have ih: "collect_all_pages_query_loop notion database_id page_size (acc @ page_items P)
        (page_cursor P) (calls @ [query_request database_id page_size cur]) =
      Some (Inr \<lparr>successful = True,
                 data = JDict [(''results'', JList ((acc @ page_items P) @ concat (map page_items Ps)))],
                 error = None\<rparr>,
           (calls @ [query_request database_id page_size cur]) @
             page_requests (query_request database_id page_size) (page_cursor P)
               (map page_cursor (butlast Ps)))"
      by (rule Cons.IH [OF False ok(2) tr(2) la rest])
    show ?thesis
      using ans ok(1) tr(1) False
      by (subst collect_all_pages_query_loop.simps)
         (simp add: safe_execute_def results_ok_iter ih query_request_def [symmetric]
            page_cursor_def [symmetric])
  qed
qed


lemma blocks_loop_pages:
  assumes "pages \<noteq> []" "list_all results_ok pages"
    "list_all (\<lambda>P. truthy (page_cursor P)) (butlast pages)"
    "\<not> truthy (page_cursor (last pages))"
    "serves notion calls
       (page_requests (children_request block_id page_size) cur (map page_cursor (butlast pages)))
       (map (\<lambda>P. Inr (JDict P)) pages)"
  shows "collect_all_blocks_loop notion block_id page_size acc cur calls =
     Some (Inr \<lparr>successful = True,
                data = JDict [(''results'', JList (acc @ concat (map page_items pages)))],
                error = None\<rparr>,
           calls @ page_requests (children_request block_id page_size) cur
                     (map page_cursor (butlast pages)))"
  using assms
proof (induction pages arbitrary: acc cur calls)
  case Nil
  then show ?case by simp
next
  case (Cons P Ps)
  show ?case
  proof (cases "Ps = []")
    case True
    with Cons.prems show ?thesis
      by (subst collect_all_blocks_loop.simps)
         (simp add: safe_execute_def children_request_def [symmetric] results_ok_iter
            page_cursor_def [symmetric])
  next
    case False
    with Cons.prems have
      ans: "notion calls (children_request block_id page_size cur) = Inr (JDict P)"
      and rest: "serves notion (calls @ [children_request block_id page_size cur])
         (page_requests (children_request block_id page_size) (page_cursor P)
            (map page_cursor (butlast Ps)))
         (map (\<lambda>P. Inr (JDict P)) Ps)"
      and ok: "results_ok P" "list_all results_ok Ps"
      and tr: "truthy (page_cursor P)" "list_all (\<lambda>P. truthy (page_cursor P)) (butlast Ps)"
      and la: "\<not> truthy (page_cursor (last Ps))"
      by simp_all
    have ih: "collect_all_blocks_loop notion block_id page_size (acc @ page_items P)
        (page_cursor P) (calls @ [children_request block_id page_size cur]) =
      Some (Inr \<lparr>successful = True,
                 data = JDict [(''results'', JList ((acc @ page_items P) @ concat (map page_items Ps)))],
                 error = None\<rparr>,
           (calls @ [children_request block_id page_size cur]) @
             page_requests (children_request block_id page_size) (page_cursor P)
               (map page_cursor (butlast Ps)))"
      by (rule Cons.IH [OF False ok(2) tr(2) la rest])
    show ?thesis
      using ans ok(1) tr(1) False
      by (subst collect_all_blocks_loop.simps)
         (simp add: safe_execute_def results_ok_iter ih children_request_def [symmetric]
            page_cursor_def [symmetric])
  qed
qed


lemma query_loop_abort:
  assumes "list_all results_ok pages" "list_all (\<lambda>P. truthy (page_cursor P)) pages"
    "serves notion calls
       (page_requests (query_request database_id page_size) cur (map page_cursor pages))
       (map (\<lambda>P. Inr (JDict P)) pages @ [Inl e])"
  shows "collect_all_pages_query_loop notion database_id page_size acc cur calls =
     Some (Inr (failure e),
           calls @ page_requests (query_request database_id page_size) cur (map page_cursor pages))"
  using assms
proof (induction pages arbitrary: acc cur calls)
  case Nil
  then show ?case
    by (subst collect_all_pages_query_loop.simps)
       (simp add: safe_execute_def query_request_def [symmetric] failure_def)
next
  case (Cons P Ps)
  then have
    ans: "notion calls (query_request database_id page_size cur) = Inr (JDict P)"
    and rest: "serves notion (calls @ [query_request database_id page_size cur])
       (page_requests (query_request database_id page_size) (page_cursor P) (map page_cursor Ps))
       (map (\<lambda>P. Inr (JDict P)) Ps @ [Inl e])"
    and ok: "results_ok P" "list_all results_ok Ps"
    and tr: "truthy (page_cursor P)" "list_all (\<lambda>P. truthy (page_cursor P)) Ps"
    by simp_all
  have ih: "collect_all_pages_query_loop notion database_id page_size (acc @ page_items P)
      (page_cursor P) (calls @ [query_request database_id page_size cur]) =
    Some (Inr (failure e),
         (calls @ [query_request database_id page_size cur]) @
           page_requests (query_request database_id page_size) (page_cursor P) (map page_cursor Ps))"
    by (rule Cons.IH [OF ok(2) tr(2) rest])
  show ?case
    using ans ok(1) tr(1)
    by (subst collect_all_pages_query_loop.simps)
       (simp add: safe_execute_def results_ok_iter ih query_request_def [symmetric]
          page_cursor_def [symmetric])
qed

lemma blocks_loop_abort:
  assumes "list_all results_ok pages" "list_all (\<lambda>P. truthy (page_cursor P)) pages"
    "serves notion calls
       (page_requests (children_request block_id page_size) cur (map page_cursor pages))
       (map (\<lambda>P. Inr (JDict P)) pages @ [Inl e])"
  shows "collect_all_blocks_loop notion block_id page_size acc cur calls =
     Some (Inr (failure e),
           calls @ page_requests (children_request block_id page_size) cur (map page_cursor pages))"
  using assms
proof (induction pages arbitrary: acc cur calls)
  case Nil
  then show ?case
    by (subst collect_all_blocks_loop.simps)
       (simp add: safe_execute_def children_request_def [symmetric] failure_def)
next
  case (Cons P Ps)
  then have
    ans: "notion calls (children_request block_id page_size cur) = Inr (JDict P)"
    and rest: "serves notion (calls @ [children_request block_id page_size cur])
       (page_requests (children_request block_id page_size) (page_cursor P) (map page_cursor Ps))
       (map (\<lambda>P. Inr (JDict P)) Ps @ [Inl e])"
    and ok: "results_ok P" "list_all results_ok Ps"
    and tr: "truthy (page_cursor P)" "list_all (\<lambda>P. truthy (page_cursor P)) Ps"
    by simp_all
  have ih: "collect_all_blocks_loop notion block_id page_size (acc @ page_items P)
      (page_cursor P) (calls @ [children_request block_id page_size cur]) =
    Some (Inr (failure e),
         (calls @ [children_request block_id page_size cur]) @
           page_requests (children_request block_id page_size) (page_cursor P) (map page_cursor Ps))"
    by (rule Cons.IH [OF ok(2) tr(2) rest])
  show ?case
    using ans ok(1) tr(1)
    by (subst collect_all_blocks_loop.simps)
       (simp add: safe_execute_def results_ok_iter ih children_request_def [symmetric]
          page_cursor_def [symmetric])
qed

text \<open>
  Claim C3, amended: when the collaborator answers with the well-formed pages
  \<open>P1, ..., Pn\<close>, of which all but the last return a cursor that is true in Python
  (not absent, null or empty) and the last returns one that is not, each aggregator
  issues exactly \<open>n\<close> calls, the first without a cursor and each later one with the
  cursor of the page before, and returns the items of all pages in order in a
  successful envelope.
\<close>

theorem pagination_aggregates_all_pages:
  assumes "pages \<noteq> []" "list_all results_ok pages"
    "list_all (\<lambda>P. truthy (page_cursor P)) (butlast pages)"
    "\<not> truthy (page_cursor (last pages))"
  shows
    "(serves notion calls
        (page_requests (query_request subject_id (dflt 100 page_size)) JNull
           (map page_cursor (butlast pages)))
        (map (\<lambda>P. Inr (JDict P)) pages) \<longrightarrow>
      collect_all_pages_query notion subject_id page_size calls =
        Some (Inr \<lparr>successful = True,
                   data = JDict [(''results'', JList (concat (map page_items pages)))],
                   error = None\<rparr>,
              calls @ page_requests (query_request subject_id (dflt 100 page_size)) JNull
                        (map page_cursor (butlast pages))))
   \<and> (serves notion calls
        (page_requests (children_request subject_id (dflt 100 page_size)) JNull
           (map page_cursor (butlast pages)))
        (map (\<lambda>P. Inr (JDict P)) pages) \<longrightarrow>
      collect_all_blocks notion subject_id page_size calls =
        Some (Inr \<lparr>successful = True,
                   data = JDict [(''results'', JList (concat (map page_items pages)))],
                   error = None\<rparr>,
              calls @ page_requests (children_request subject_id (dflt 100 page_size)) JNull
                        (map page_cursor (butlast pages))))
   \<and> length (page_requests mk JNull (map page_cursor (butlast pages))) = length pages"
proof -
  have len: "length (page_requests mk c cs) = Suc (length cs)" for c and cs :: "json list"
    by (induction cs arbitrary: c) simp_all
  have "length (page_requests mk JNull (map page_cursor (butlast pages))) = length pages"
    using assms(1) by (simp add: len)
  then show ?thesis
    using query_loop_pages [OF assms, of notion calls subject_id "dflt 100 page_size" JNull "[]"]
      blocks_loop_pages [OF assms, of notion calls subject_id "dflt 100 page_size" JNull "[]"]
    by (simp add: collect_all_pages_query_def collect_all_blocks_def)
qed

theorem pagination_aggregates_all_pages_witness:
  "collect_all_pages_query three_pages ''db'' None [] =
     Some (Inr \<lparr>successful = True,
                data = JDict [(''results'', JList [JStr ''r1'', JStr ''r2'', JStr ''r3'', JStr ''r4''])],
                error = None\<rparr>,
           [(databases_query, [(''database_id'', JStr ''db''), (''page_size'', JInt 100)]),
            (databases_query, [(''database_id'', JStr ''db''), (''page_size'', JInt 100),
                               (''start_cursor'', JStr ''c1'')]),
            (databases_query, [(''database_id'', JStr ''db''), (''page_size'', JInt 100),
                               (''start_cursor'', JStr ''c2'')])])
   \<and> collect_all_blocks three_pages ''db'' None [] =
     Some (Inr \<lparr>successful = True,
                data = JDict [(''results'', JList [JStr ''r1'', JStr ''r2'', JStr ''r3'', JStr ''r4''])],
                error = None\<rparr>,
           [(blocks_children_list, [(''block_id'', JStr ''db''), (''page_size'', JInt 100)]),
            (blocks_children_list, [(''block_id'', JStr ''db''), (''page_size'', JInt 100),
                                    (''start_cursor'', JStr ''c1'')]),
            (blocks_children_list, [(''block_id'', JStr ''db''), (''page_size'', JInt 100),
                                    (''start_cursor'', JStr ''c2'')])])"
  using pagination_aggregates_all_pages
    [where pages = "[[(''results'', JList [JStr ''r1'', JStr ''r2'']), (''next_cursor'', JStr ''c1'')],
                     [(''results'', JList [JStr ''r3'']), (''next_cursor'', JStr ''c2'')],
                     [(''results'', JList [JStr ''r4'']), (''next_cursor'', JNull)]]"
       and notion = three_pages and calls = "[]" and subject_id = "''db''" and page_size = None]
  by (simp add: results_ok_def page_cursor_def page_items_def dict_get_def three_pages_def
      query_request_def children_request_def page_kwargs_def)

text \<open>
  The claim as stated fails on a page whose cursor is the empty string: the cursor is
  not null, a second page exists, and the aggregator stops after one call with the
  items of the first page only.
\<close>

theorem pagination_stops_on_empty_cursor:
  "empty_cursor [] (databases_query, [(''database_id'', JStr ''db''), (''page_size'', JInt 100)]) =
     Inr (JDict [(''results'', JList [JStr ''r1'']), (''next_cursor'', JStr [])])
   \<and> JStr [] \<noteq> JNull
   \<and> empty_cursor [(databases_query, [(''database_id'', JStr ''db''), (''page_size'', JInt 100)])]
       (databases_query, [(''database_id'', JStr ''db''), (''page_size'', JInt 100)]) =
     Inr (JDict [(''results'', JList [JStr ''r2'']), (''next_cursor'', JNull)])
   \<and> collect_all_pages_query empty_cursor ''db'' None [] =
     Some (Inr \<lparr>successful = True, data = JDict [(''results'', JList [JStr ''r1''])],
                error = None\<rparr>,
           [(databases_query, [(''database_id'', JStr ''db''), (''page_size'', JInt 100)])])"
  by (simp add: collect_all_pages_query_def collect_all_pages_query_loop.simps empty_cursor_def
      safe_execute_def page_kwargs_def dict_get_def)

text \<open>
  Claim C4: when the \<open>k\<close>-th page fetch fails, after \<open>k - 1\<close> pages that each returned
  a cursor, the aggregator returns the failure envelope of that call, without the items
  read before, and issues no call after it.
\<close>

theorem pagination_aborts_on_failure:
  assumes "list_all results_ok pages" "list_all (\<lambda>P. truthy (page_cursor P)) pages"
  shows
    "(serves notion calls
        (page_requests (query_request subject_id (dflt 100 page_size)) JNull (map page_cursor pages))
        (map (\<lambda>P. Inr (JDict P)) pages @ [Inl e]) \<longrightarrow>
      collect_all_pages_query notion subject_id page_size calls =
        Some (Inr \<lparr>successful = False, data = JDict [], error = Some e\<rparr>,
              calls @ page_requests (query_request subject_id (dflt 100 page_size)) JNull
                        (map page_cursor pages)))
   \<and> (serves notion calls
        (page_requests (children_request subject_id (dflt 100 page_size)) JNull (map page_cursor pages))
        (map (\<lambda>P. Inr (JDict P)) pages @ [Inl e]) \<longrightarrow>
      collect_all_blocks notion subject_id page_size calls =
        Some (Inr \<lparr>successful = False, data = JDict [], error = Some e\<rparr>,
              calls @ page_requests (children_request subject_id (dflt 100 page_size)) JNull
                        (map page_cursor pages)))"
  using query_loop_abort [OF assms, of notion calls subject_id "dflt 100 page_size" JNull e "[]"]
    blocks_loop_abort [OF assms, of notion calls subject_id "dflt 100 page_size" JNull e "[]"]
  by (simp add: collect_all_pages_query_def collect_all_blocks_def failure_def)

theorem pagination_aborts_on_failure_witness:
  "collect_all_pages_query second_page_fails ''db'' None [] =
     Some (Inr \<lparr>successful = False, data = JDict [], error = Some ''rate limited''\<rparr>,
           [(databases_query, [(''database_id'', JStr ''db''), (''page_size'', JInt 100)]),
            (databases_query, [(''database_id'', JStr ''db''), (''page_size'', JInt 100),
                               (''start_cursor'', JStr ''c1'')])])
   \<and> collect_all_blocks second_page_fails ''db'' None [] =
     Some (Inr \<lparr>successful = False, data = JDict [], error = Some ''rate limited''\<rparr>,
           [(blocks_children_list, [(''block_id'', JStr ''db''), (''page_size'', JInt 100)]),
            (blocks_children_list, [(''block_id'', JStr ''db''), (''page_size'', JInt 100),
                                    (''start_cursor'', JStr ''c1'')])])"
  using pagination_aborts_on_failure
    [where pages = "[[(''results'', JList [JStr ''r1'']), (''next_cursor'', JStr ''c1'')]]"
       and notion = second_page_fails and calls = "[]" and subject_id = "''db''"
       and page_size = None and e = "''rate limited''"]
  by (simp add: results_ok_def page_cursor_def dict_get_def second_page_fails_def
      query_request_def children_request_def page_kwargs_def)

section \<open>Input validation\<close>

lemmas tool_defs =
  NOTION_GET_ABOUT_USER_def NOTION_CREATE_NOTION_PAGE_def NOTION_UPDATE_PAGE_def
  NOTION_GET_PAGE_PROPERTY_ACTION_def NOTION_ARCHIVE_NOTION_PAGE_def NOTION_CREATE_DATABASE_def
  NOTION_INSERT_ROW_DATABASE_def NOTION_QUERY_DATABASE_def NOTION_FETCH_DATABASE_def
  NOTION_FETCH_ROW_def NOTION_UPDATE_ROW_DATABASE_def NOTION_UPDATE_SCHEMA_DATABASE_def
  NOTION_ADD_MULTIPLE_PAGE_CONTENT_def NOTION_ADD_PAGE_CONTENT_def NOTION_APPEND_BLOCK_CHILDREN_def
  NOTION_UPDATE_BLOCK_def NOTION_DELETE_BLOCK_def NOTION_FETCH_BLOCK_CONTENTS_def
  NOTION_FETCH_BLOCK_METADATA_def NOTION_CREATE_COMMENT_def NOTION_GET_COMMENT_BY_ID_def
  NOTION_FETCH_COMMENTS_def

text \<open>
  Claim C1, amended: a tool that hands its identifier to the validator (every tool with
  a page, database, block, user or parent identifier, the comment tools apart) returns a
  failure envelope and issues no call when the identifier fails the pattern; a comment
  tool does so when its identifier is absent or empty.
\<close>

theorem invalid_identifier_rejected_without_call:
  assumes "(\<exists>i. validated_identifier c = Some i \<and> \<not> validate_notion_id i) \<or> missing_identifier c"
  shows "\<exists>msg. run_tool notion c calls = (Inr (failure msg), calls)"
  using assms by (cases c; simp add: tool_defs; blast)

theorem invalid_identifier_rejected_witness:
  "\<not> validate_notion_id (JStr ''not-an-id'')
   \<and> run_tool unreachable (FETCH_ROW (JStr ''not-an-id'')) [] = (Inr (failure ''Invalid page_id format''), [])
   \<and> run_tool unreachable (FETCH_COMMENTS [] None None) [] = (Inr (failure ''block_id is required.''), [])"
proof -
  have inv: "\<not> validate_notion_id (JStr ''not-an-id'')"
    by (simp add: validate_notion_id_def uuid_re_match_def)
  obtain m1 where m1: "run_tool unreachable (FETCH_ROW (JStr ''not-an-id'')) [] = (Inr (failure m1), [])"
    using invalid_identifier_rejected_without_call [of "FETCH_ROW (JStr ''not-an-id'')" unreachable "[]"] inv by auto
  obtain m2 where m2: "run_tool unreachable (FETCH_COMMENTS [] None None) [] = (Inr (failure m2), [])"
    using invalid_identifier_rejected_without_call [of "FETCH_COMMENTS [] None None" unreachable "[]"] by auto
  from m1 m2 inv show ?thesis
    by (simp add: NOTION_FETCH_ROW_def NOTION_FETCH_COMMENTS_def)
qed

text \<open>
  The claim as stated fails on the comment tools: \<^verbatim>\<open>NOTION_GET_COMMENT_BY_ID\<close> sends
  a parent identifier that fails the pattern to the collaborator and succeeds.
\<close>

theorem comment_lookup_skips_identifier_validation:
  "\<not> validate_notion_id (JStr ''not-an-id'')
   \<and> run_tool one_comment (GET_COMMENT_BY_ID ''not-an-id'' ''c1'') [] =
       (Inr \<lparr>successful = True, data = JDict [(''id'', JStr ''c1''), (''object'', JStr ''comment'')],
             error = None\<rparr>,
        [(comments_list, [(''block_id'', JStr ''not-an-id''), (''page_size'', JInt 100)])])"
  by (simp add: validate_notion_id_def uuid_re_match_def NOTION_GET_COMMENT_BY_ID_def
      safe_execute_def one_comment_def raising_def dict_get_def)

text \<open>
  Claim C8, amended: on a list of more than 100 units, an empty list or a value that is
  not a list, both append tools return a failure envelope and issue no call. The
  envelope cites the 100-item maximum (or the non-empty list) when the parent
  identifier passes the validator; the identifier is checked first, and when it fails
  the envelope cites the identifier.
\<close>

theorem block_append_limits:
  assumes "\<not> isinstance_list units \<or> list_len units = 0 \<or> 100 < list_len units"
  shows "NOTION_ADD_MULTIPLE_PAGE_CONTENT notion parent_block_id units after calls =
           (Inr (failure (if \<not> validate_notion_id parent_block_id then ''Invalid parent_block_id''
                          else if 100 < list_len units then ''Maximum 100 blocks per request''
                          else ''content_blocks must be a non-empty list'')), calls)
       \<and> NOTION_APPEND_BLOCK_CHILDREN notion parent_block_id units after calls =
           (Inr (failure (if \<not> validate_notion_id parent_block_id then ''Invalid block_id''
                          else if 100 < list_len units then ''Maximum 100 blocks per request''
                          else ''children must be a non-empty list'')), calls)"
  using assms
  by (cases units) (auto simp: NOTION_ADD_MULTIPLE_PAGE_CONTENT_def NOTION_APPEND_BLOCK_CHILDREN_def)

theorem block_append_limits_witness:
  "NOTION_ADD_MULTIPLE_PAGE_CONTENT unreachable (JStr ''0123456789abcdef0123456789abcdef'')
       (JList (replicate 101 (JDict [(''content'', JStr ''x'')]))) None [] =
       (Inr (failure ''Maximum 100 blocks per request''), [])
   \<and> NOTION_APPEND_BLOCK_CHILDREN unreachable (JStr ''0123456789abcdef0123456789abcdef'')
       (JList (replicate 101 (JDict [(''content'', JStr ''x'')]))) None [] =
       (Inr (failure ''Maximum 100 blocks per request''), [])
   \<and> NOTION_APPEND_BLOCK_CHILDREN unreachable (JStr ''0123456789abcdef0123456789abcdef'')
       (JList []) None [] = (Inr (failure ''children must be a non-empty list''), [])
   \<and> NOTION_ADD_MULTIPLE_PAGE_CONTENT unreachable (JStr ''0123456789abcdef0123456789abcdef'')
       (JStr ''text'') None [] = (Inr (failure ''content_blocks must be a non-empty list''), [])"
  using block_append_limits [of "JList (replicate 101 (JDict [(''content'', JStr ''x'')]))" unreachable
      "JStr ''0123456789abcdef0123456789abcdef''" None "[]"]
    block_append_limits [of "JList []" unreachable "JStr ''0123456789abcdef0123456789abcdef''" None "[]"]
    block_append_limits [of "JStr ''text''" unreachable "JStr ''0123456789abcdef0123456789abcdef''" None "[]"]
    valid_sample_id
  by simp

text \<open>
  The claim as stated fails when the parent identifier is rejected: the envelope of a
  101-item call then cites the identifier, not the maximum.
\<close>

theorem block_append_invalid_identifier_first:
  "list_len (JList (replicate 101 (JDict [(''content'', JStr ''x'')]))) = 101
   \<and> NOTION_APPEND_BLOCK_CHILDREN unreachable (JStr ''page-1'')
       (JList (replicate 101 (JDict [(''content'', JStr ''x'')]))) None [] =
       (Inr (failure ''Invalid block_id''), [])"
  by (simp add: NOTION_APPEND_BLOCK_CHILDREN_def validate_notion_id_def uuid_re_match_def)

section \<open>Updating a page title\<close>

lemma map_entry_append_fresh:
  "k \<notin> fst ` set xs \<Longrightarrow> AList.map_entry k f (xs @ ys) = xs @ AList.map_entry k f ys"
  by (induction xs) auto

text \<open>
  Claim C7, amended: on a call with an identifier that passes the validator and a
  non-empty title, \<^verbatim>\<open>NOTION_UPDATE_PAGE\<close> first retrieves the page. It then sends the
  update with the title under the key of the first property of the page that is a
  mapping with a \<^verbatim>\<open>title\<close> entry, and under \<^verbatim>\<open>"Name"\<close> when the retrieval fails
  or the page has no such property; the caller's \<^verbatim>\<open>properties\<close> are merged over
  it.
\<close>

theorem update_page_title_key:
  assumes "validate_notion_id page_id" "title \<noteq> []"
  shows
    "(notion calls (pages_retrieve, [(''page_id'', page_id)]) = Inl e \<longrightarrow>
        NOTION_UPDATE_PAGE notion page_id (Some title) archived cover_url icon_emoji properties calls =
          returns (safe_execute notion pages_update
            ([(''page_id'', page_id)] @
             (if archived \<noteq> None then [(''archived'', opt_bool archived)] else []) @
             (if truthy (opt_str cover_url) then [(''cover'', external_url (opt_str cover_url))] else []) @
             (if truthy (opt_str icon_emoji) then [(''icon'', emoji (opt_str icon_emoji))] else []) @
             [(''properties'',
               JDict (dict_update [(''Name'', title_text (JStr title))] (dflt [] properties)))])
            (calls @ [(pages_retrieve, [(''page_id'', page_id)])])))
   \<and> (notion calls (pages_retrieve, [(''page_id'', page_id)]) = Inr (JDict page) \<and>
      py_items (dict_get page ''properties'' (JDict [])) = Inr items \<longrightarrow>
        NOTION_UPDATE_PAGE notion page_id (Some title) archived cover_url icon_emoji properties calls =
          returns (safe_execute notion pages_update
            ([(''page_id'', page_id)] @
             (if archived \<noteq> None then [(''archived'', opt_bool archived)] else []) @
             (if truthy (opt_str cover_url) then [(''cover'', external_url (opt_str cover_url))] else []) @
             (if truthy (opt_str icon_emoji) then [(''icon'', emoji (opt_str icon_emoji))] else []) @
             [(''properties'',
               JDict (dict_update [(title_key_of items, title_text (JStr title))] (dflt [] properties)))])
            (calls @ [(pages_retrieve, [(''page_id'', page_id)])])))
   \<and> (list_all (\<lambda>kv. \<not> is_title_property (snd kv)) items \<longrightarrow> title_key_of items = ''Name'')
   \<and> (is_title_property v \<and> list_all (\<lambda>kv. \<not> is_title_property (snd kv)) before \<longrightarrow>
        title_key_of (before @ (k, v) # rest) = k)"
proof -
  let ?ret = "(pages_retrieve, [(''page_id'', page_id)])"
  have key1: "list_all (\<lambda>kv. \<not> is_title_property (snd kv)) items \<Longrightarrow> title_key_of items = ''Name''"
    for items
    by (induction items) (auto simp: title_key_of_def)
  have key2: "is_title_property v \<Longrightarrow> list_all (\<lambda>kv. \<not> is_title_property (snd kv)) before \<Longrightarrow>
      title_key_of (before @ (k, v) # rest) = k" for before
    by (induction before) (auto simp: title_key_of_def)
  define base where "base =
     (if archived \<noteq> None then [(''archived'', opt_bool archived)] else []) @
     (if truthy (opt_str cover_url) then [(''cover'', external_url (opt_str cover_url))] else []) @
     (if truthy (opt_str icon_emoji) then [(''icon'', emoji (opt_str icon_emoji))] else [])"
  have fresh: "''properties'' \<notin> fst ` set base" by (auto simp: base_def)
  have kw: "set_if (truthy (opt_str icon_emoji)) ''icon'' (emoji (opt_str icon_emoji))
      (set_if (truthy (opt_str cover_url)) ''cover'' (external_url (opt_str cover_url))
        (set_if (archived \<noteq> None) ''archived'' (opt_bool archived) [])) = base"
    by (simp add: set_if_def base_def)
  have stmt: "[(''page_id'', page_id)] @
       (if archived \<noteq> None then [(''archived'', opt_bool archived)] else []) @
       (if truthy (opt_str cover_url) then [(''cover'', external_url (opt_str cover_url))] else []) @
       (if truthy (opt_str icon_emoji) then [(''icon'', emoji (opt_str icon_emoji))] else []) @
       [pr] = (''page_id'', page_id) # (base @ [pr])" for pr
    by (simp add: base_def)
  have sd: "setdefault ''properties'' (JDict []) base = base @ [(''properties'', JDict [])]"
    using fresh by (simp add: setdefault_def dict_in_def map_of_eq_None_iff)
  have sp: "set_property key t (base @ [(''properties'', JDict [])]) =
      base @ [(''properties'', JDict [(key, t)])]" for key t
    using fresh by (simp add: set_property_def map_entry_append_fresh)
  have upd: "(if truthy (opt_dict properties)
       then update_properties (dflt [] properties)
              (setdefault ''properties'' (JDict []) (base @ [(''properties'', JDict d)]))
       else base @ [(''properties'', JDict d)]) =
      base @ [(''properties'', JDict (dict_update d (dflt [] properties)))]" for d
    using fresh
    by (cases properties)
       (auto simp: update_properties_def setdefault_def dict_in_def map_entry_append_fresh
          dict_update_def map_of_eq_None_iff)
  have main: "NOTION_UPDATE_PAGE notion page_id (Some title) archived cover_url icon_emoji properties calls =
      raising (fst (update_page_title notion page_id (JStr title) base calls))
        (snd (update_page_title notion page_id (JStr title) base calls))
        (\<lambda>kwargs. returns (safe_execute notion pages_update
           ((''page_id'', page_id) #
            (if truthy (opt_dict properties)
             then update_properties (dflt [] properties) (setdefault ''properties'' (JDict []) kwargs)
             else kwargs))
           (snd (update_page_title notion page_id (JStr title) base calls))))"
    unfolding NOTION_UPDATE_PAGE_def Let_def kw using assms by simp
  have failed: "update_page_title notion page_id (JStr title) base calls =
      (Inr (base @ [(''properties'', JDict [(''Name'', title_text (JStr title))])]), calls @ [?ret])"
    if "notion calls ?ret = Inl e"
    using that by (simp add: update_page_title_def Let_def safe_execute_def sd sp)
  have found: "update_page_title notion page_id (JStr title) base calls =
      (Inr (base @ [(''properties'', JDict [(title_key_of items, title_text (JStr title))])]),
       calls @ [?ret])"
    if "notion calls ?ret = Inr (JDict page)"
       "py_items (dict_get page ''properties'' (JDict [])) = Inr items"
    using that by (simp add: update_page_title_def Let_def safe_execute_def sd sp)
  show ?thesis
    unfolding stmt
    using key1 key2
    by (auto simp: main failed found raising_def upd)
qed

theorem update_page_title_key_witness:
  "NOTION_UPDATE_PAGE retrieve_fails (JStr ''0123456789abcdef0123456789abcdef'') (Some ''Plan'')
      None None None None [] =
     (Inr \<lparr>successful = True, data = JDict [(''object'', JStr ''page'')], error = None\<rparr>,
      [(pages_retrieve, [(''page_id'', JStr ''0123456789abcdef0123456789abcdef'')]),
       (pages_update,
        [(''page_id'', JStr ''0123456789abcdef0123456789abcdef''),
         (''properties'', JDict [(''Name'', title_text (JStr ''Plan''))])])])
   \<and> NOTION_UPDATE_PAGE titled_page (JStr ''0123456789abcdef0123456789abcdef'') (Some ''Plan'')
      None None None None [] =
     (Inr \<lparr>successful = True, data = JDict [(''object'', JStr ''page'')], error = None\<rparr>,
      [(pages_retrieve, [(''page_id'', JStr ''0123456789abcdef0123456789abcdef'')]),
       (pages_update,
        [(''page_id'', JStr ''0123456789abcdef0123456789abcdef''),
         (''properties'', JDict [(''Task'', title_text (JStr ''Plan''))])])])"
proof -
  let ?id = "JStr ''0123456789abcdef0123456789abcdef''"
  let ?props = "[(''Status'', JDict [(''select'', JNull)]),
                 (''Task'', JDict [(''id'', JStr ''title''), (''title'', JList [])])]"
  have t: "''Plan'' \<noteq> []" by simp
  have k: "title_key_of ?props = ''Task''"
    using update_page_title_key [OF valid_sample_id t, where before = "[(''Status'', JDict [(''select'', JNull)])]"
        and v = "JDict [(''id'', JStr ''title''), (''title'', JList [])]" and k = "''Task''" and rest = "[]"]
    by (simp add: dict_in_def)
  have a: "retrieve_fails [] (pages_retrieve, [(''page_id'', ?id)]) = Inl ''Could not find page''"
    by (simp add: retrieve_fails_def)
  have b: "titled_page [] (pages_retrieve, [(''page_id'', ?id)]) =
      Inr (JDict [(''id'', ?id), (''properties'', JDict ?props)]) \<and>
      py_items (dict_get [(''id'', ?id), (''properties'', JDict ?props)] ''properties'' (JDict [])) =
      Inr ?props"
    by (simp add: titled_page_def dict_get_def)
  show ?thesis
    using update_page_title_key [OF valid_sample_id t, where notion = retrieve_fails and calls = "[]"
        and e = "''Could not find page''" and archived = None and cover_url = None
        and icon_emoji = None and properties = None] a
      update_page_title_key [OF valid_sample_id t, where notion = titled_page and calls = "[]"
        and page = "[(''id'', ?id), (''properties'', JDict ?props)]" and items = ?props
        and archived = None and cover_url = None and icon_emoji = None and properties = None] b k
    by (simp add: returns_def safe_execute_def retrieve_fails_def titled_page_def dict_update_def)
qed

text \<open>
  The claim as stated fails when the identifier is rejected (no retrieval, no update)
  and when the title supplied is empty (an update without the title, no retrieval).
\<close>

theorem update_page_without_retrieval:
  "NOTION_UPDATE_PAGE accepting (JStr ''my-page'') (Some ''Plan'') None None None None [] =
     (Inr (failure ''Invalid page_id format''), [])
   \<and> NOTION_UPDATE_PAGE accepting (JStr ''0123456789abcdef0123456789abcdef'') (Some []) None None
        None None [] =
     (Inr \<lparr>successful = True, data = JDict [(''object'', JStr ''page'')], error = None\<rparr>,
      [(pages_update, [(''page_id'', JStr ''0123456789abcdef0123456789abcdef'')])])"
proof -
  have "\<not> validate_notion_id (JStr ''my-page'')"
    by (simp add: validate_notion_id_def uuid_re_match_def)
  then show ?thesis
    by (simp add: NOTION_UPDATE_PAGE_def valid_sample_id set_if_def raising_def returns_def
        safe_execute_def accepting_def)
qed

end
